theory Spec2Isabelle
  imports Main "HOL-Library.Word"
begin

unbundle bit_operations_syntax

chapter \<open>The program\<close>

section \<open>C strings and line buffers\<close>

text \<open>
  A line is a NUL-terminated C string held in a buffer. \<open>chars\<close> are the characters
  before the terminator. The source often uses a sentinel returned by \<open>space_skip\<close>
  (-1, -2 or -3) as an index, so it reads the bytes that lie before the buffer; C
  leaves their value undefined, and the model takes them as the parameter \<open>outside\<close>.
  \<open>char_at\<close> gives NUL at the terminator. One buffer serves all lines, so what lies
  behind the terminator is left over from earlier lines and is not known either: where
  the source reads there (the test of \<open>first_scan\<close> behind \<open>stop\<close>, the loop of
  \<open>save_place\<close>) the model ends the run as \<open>Off_buffer\<close> instead of reading. The
  other indices the source computes are reached from a character that is not the
  terminator in steps of one, or are values returned by \<open>space_skip\<close>.
\<close>

record cbuf =
  chars :: string
  outside :: "int \<Rightarrow> char"

abbreviation NUL :: char where
  "NUL \<equiv> CHR 0x00"

abbreviation TAB :: char where
  "TAB \<equiv> CHR 0x09"

abbreviation NL :: char where
  "NL \<equiv> CHR 0x0A"

abbreviation CR :: char where
  "CR \<equiv> CHR 0x0D"

abbreviation SP :: char where
  "SP \<equiv> CHR '' ''"

definition char_at :: "cbuf \<Rightarrow> int \<Rightarrow> char" where
  "char_at b i =
     (if i < 0 then outside b i
      else if i < int (length (chars b)) then chars b ! nat i
      else NUL)"

text \<open>A memory that holds NUL bytes before the buffer.\<close>

definition zero_before :: "int \<Rightarrow> char" where
  "zero_before i = NUL"

section \<open>Encoding primitives (decode.c)\<close>

text \<open>
  \<open>decode_number\<close>: \<open>val = number & 0x3FF\<close> on \<open>unsigned int\<close>, then the bits
  9 down to 0 as characters, most significant first.
\<close>

definition decode_number :: "int \<Rightarrow> string" where
  "decode_number number =
     (let mask = (push_bit 10 1 - 1 :: 32 word);
          val = (word_of_int number :: 32 word) AND mask
      in map (\<lambda>i. if drop_bit i val AND 1 \<noteq> 0 then CHR ''1'' else CHR ''0'')
           [9, 8, 7, 6, 5, 4, 3, 2, 1, 0 :: nat])"

text \<open>
  The reading of a word that the specification's round-trip property uses: the binary
  string as an unsigned number, most significant bit first, and its 10-bit two's-complement
  value. The source has no decoder of its own.
\<close>

definition bin_value :: "string \<Rightarrow> int" where
  "bin_value s = foldl (\<lambda>acc c. 2 * acc + (if c = CHR ''1'' then 1 else 0)) 0 s"

definition twos_complement_10 :: "string \<Rightarrow> int" where
  "twos_complement_10 s = (let u = bin_value s in if 512 \<le> u then u - 1024 else u)"

section \<open>Lexical helpers (helpers.c)\<close>

text \<open>
  C integers are modelled by \<open>int\<close>: the lengths and values the source computes on a line
  of at most 81 characters stay far from the limits of a 32-bit \<open>int\<close>, except for
  \<open>str_to_int\<close> and \<open>atoi\<close> on an overlong digit string, where the model has the
  mathematical value.

  \<open>strlen(line)\<close> is a \<open>size_t\<close>. In a comparison \<open>i < strlen(line)\<close> the \<open>int\<close>
  index is converted to unsigned, so that a negative index is never below the length.
\<close>

definition strlen :: "cbuf \<Rightarrow> int" where
  "strlen line = int (length (chars line))"

definition lt_strlen :: "int \<Rightarrow> cbuf \<Rightarrow> bool" where
  "lt_strlen i line = (0 \<le> i \<and> i < strlen line)"

text \<open>A local array that holds the string \<open>s\<close>; the source never reads before the start
  of one.\<close>

definition local_buf :: "string \<Rightarrow> cbuf" where
  "local_buf s = \<lparr>chars = s, outside = (\<lambda>_. NUL)\<rparr>"

text \<open>The character classes of \<open>ctype.h\<close> in the C locale.\<close>

definition isdigit :: "char \<Rightarrow> bool" where
  "isdigit c = (c \<in> set ''0123456789'')"

definition isalpha :: "char \<Rightarrow> bool" where
  "isalpha c = (c \<in> set ''abcdefghijklmnopqrstuvwxyzABCDEFGHIJKLMNOPQRSTUVWXYZ'')"

definition isalnum :: "char \<Rightarrow> bool" where
  "isalnum c = (isalpha c \<or> isdigit c)"

definition isspace :: "char \<Rightarrow> bool" where
  "isspace c = (c \<in> set [SP, TAB, NL, CHR 0x0B, CHR 0x0C, CR])"

text \<open>
  The scanning loops. \<open>skip_while P line i\<close> is \<open>while (P(line[i])) i++\<close> for a
  condition that fails on the terminator; \<open>scan_lt P line i\<close> is
  \<open>while (i < strlen(line) && P(line[i])) i++\<close>; \<open>copy_upto P n line i acc\<close> is
  the loop that also copies the characters it passes into a local array, at most \<open>n\<close>
  of them.
\<close>

function skip_while :: "(char \<Rightarrow> bool) \<Rightarrow> cbuf \<Rightarrow> int \<Rightarrow> int" where
  "skip_while P line i =
     (if char_at line i \<noteq> NUL \<and> P (char_at line i) then skip_while P line (i + 1) else i)"
  by pat_completeness auto
termination
  by (relation "measure (\<lambda>(P, line, i). nat (int (length (chars line)) - i))")
    (auto simp: char_at_def split: if_splits)

declare skip_while.simps [simp del]

function scan_lt :: "(char \<Rightarrow> bool) \<Rightarrow> cbuf \<Rightarrow> int \<Rightarrow> int" where
  "scan_lt P line i =
     (if lt_strlen i line \<and> P (char_at line i) then scan_lt P line (i + 1) else i)"
  by pat_completeness auto
termination
  by (relation "measure (\<lambda>(P, line, i). nat (int (length (chars line)) - i))")
    (auto simp: lt_strlen_def strlen_def)

declare scan_lt.simps [simp del]

function copy_upto :: "(char \<Rightarrow> bool) \<Rightarrow> nat \<Rightarrow> cbuf \<Rightarrow> int \<Rightarrow> string \<Rightarrow> int \<times> string" where
  "copy_upto P n line i acc =
     (if char_at line i \<noteq> NUL \<and> P (char_at line i) \<and> length acc < n
      then copy_upto P n line (i + 1) (acc @ [char_at line i])
      else (i, acc))"
  by pat_completeness auto
termination
  by (relation "measure (\<lambda>(P, n, line, i, acc). nat (int (length (chars line)) - i))")
    (auto simp: char_at_def split: if_splits)

declare copy_upto.simps [simp del]

text \<open>\<open>strncmp(line + i, pat, n) == 0\<close> for a pattern without NUL.\<close>

fun strncmp0 :: "cbuf \<Rightarrow> int \<Rightarrow> string \<Rightarrow> nat \<Rightarrow> bool" where
  "strncmp0 line i pat 0 = True"
| "strncmp0 line i [] (Suc n) = (char_at line i = NUL)"
| "strncmp0 line i (c # cs) (Suc n) = (char_at line i = c \<and> strncmp0 line (i + 1) cs n)"

text \<open>The characters \<open>line[i] .. line[j - 1]\<close>, as \<open>strncpy(dst, line + i, j - i)\<close>
  copies them.\<close>

definition substr :: "cbuf \<Rightarrow> int \<Rightarrow> int \<Rightarrow> string" where
  "substr line i j = map (char_at line) [i..j - 1]"

definition space_skip :: "cbuf \<Rightarrow> int \<Rightarrow> int" where
  "space_skip line i0 =
     (let i = skip_while (\<lambda>c. c = SP \<or> c = TAB) line i0;
          c = char_at line i
      in if c = NL \<or> c = CR \<or> c = NUL then - 2
         else if c = CHR '','' then - 1
         else if c = CHR ''['' then - 3
         else i)"

definition is_symbol :: "cbuf \<Rightarrow> int \<Rightarrow> int" where
  "is_symbol line i0 =
     (if \<not> isalpha (char_at line i0) then 0
      else
        (let i = skip_while isalnum line i0;
             c = char_at line i
         in if c = CHR '':'' \<or> c = NL \<or> c = CR \<or> c = CHR '','' \<or> c = CHR ''[''
               \<or> c = SP \<or> c = NUL
            then i else 0))"

definition is_symbol_definition :: "cbuf \<Rightarrow> int \<Rightarrow> int" where
  "is_symbol_definition line i =
     (let symbol_end = is_symbol line i
      in if 0 < symbol_end \<and> char_at line symbol_end = CHR '':'' then symbol_end else 0)"

definition is_directive :: "cbuf \<Rightarrow> int \<Rightarrow> int" where
  "is_directive line i =
     (if strncmp0 line i ''.data '' 5 then 1
      else if strncmp0 line i ''.string '' 7 then 2
      else if strncmp0 line i ''.mat '' 4 then 3
      else if strncmp0 line i ''.extern '' 7 then 4
      else if strncmp0 line i ''.entry '' 6 then 5
      else 0)"

definition is_number :: "cbuf \<Rightarrow> int \<Rightarrow> bool" where
  "is_number line index =
     (let i = (if char_at line index = CHR ''+'' \<or> char_at line index = CHR ''-''
               then index + 1 else index)
      in if \<not> isdigit (char_at line i) then False
         else
           (let j = skip_while isdigit line i;
                c = char_at line j
            in c = NUL \<or> c = NL \<or> c = CR \<or> c = SP \<or> c = CHR '',''))"

text \<open>
  \<open>is_register\<close>: 0 when there is no register at \<open>i\<close>, 1 when a comma follows it
  (after blanks), 2 when the line ends after it, 3 when \<open>]\<close> follows it at once. The
  bound \<open>i >= strlen(line) - 1\<close> is computed on \<open>size_t\<close>, where the length 0 gives
  the largest value.
\<close>

definition is_register :: "cbuf \<Rightarrow> int \<Rightarrow> int" where
  "is_register line i0 =
     (if i0 < 0 \<or> (0 < strlen line \<and> strlen line - 1 \<le> i0) then 0
      else if char_at line i0 = CHR ''r'' \<and> char_at line (i0 + 1) \<in> set ''01234567'' then
        (let i = i0 + 2
         in if strlen line \<le> i \<or> isalnum (char_at line i) then 0
            else
              (let skip_result = space_skip line i
               in if skip_result = - 2 then 2
                  else if skip_result = - 1 then 1
                  else if char_at line i = CHR '']'' then 3
                  else if char_at line i = NL \<or> char_at line i = NUL then 2
                  else 0))
      else 0)"

definition is_mat_operand :: "cbuf \<Rightarrow> int \<Rightarrow> int" where
  "is_mat_operand line i0 =
     (let i = is_symbol line i0
      in if i = 0 then 0
         else if char_at line i \<noteq> CHR ''['' then 0
         else if is_register line (i + 1) \<noteq> 3 then 0
         else if char_at line (i + 4) \<noteq> CHR ''['' then 0
         else if is_register line (i + 5) \<noteq> 3 then 0
         else if space_skip line (i + 8) = - 1 then 1
         else if space_skip line (i + 8) = - 2 then 2
         else 0)"

text \<open>\<open>str_to_int\<close> and the library's \<open>atoi\<close>: an optional sign and the digits that
  follow; \<open>atoi\<close> skips white space first.\<close>

definition digit_val :: "char \<Rightarrow> int" where
  "digit_val c = int (of_char c) - 48"

function digits_value :: "cbuf \<Rightarrow> int \<Rightarrow> int \<Rightarrow> int" where
  "digits_value str index result =
     (if isdigit (char_at str index)
      then digits_value str (index + 1) (result * 10 + digit_val (char_at str index))
      else result)"
  by pat_completeness auto
termination
  by (relation "measure (\<lambda>(str, index, result). nat (int (length (chars str)) - index))")
    (auto simp: char_at_def isdigit_def split: if_splits)

declare digits_value.simps [simp del]

definition str_to_int :: "cbuf \<Rightarrow> int \<Rightarrow> int" where
  "str_to_int str i =
     (if char_at str i = CHR ''-'' then - digits_value str (i + 1) 0
      else if char_at str i = CHR ''+'' then digits_value str (i + 1) 0
      else digits_value str i 0)"

definition atoi :: "cbuf \<Rightarrow> int \<Rightarrow> int" where
  "atoi str i = str_to_int str (skip_while isspace str i)"

section \<open>Words, symbols and orders (word.c, symbolTable.c, order.h)\<close>

text \<open>
  The linked lists of the source are lists; a tail pointer is the last element. The
  fields keep the source's names behind a prefix: \<open>w_\<close> for \<open>Word\<close>, \<open>sym_\<close> for
  \<open>Symbol\<close>. In a \<open>Symbol\<close> the type is 1 = data, 2 = code, 3 = entry, 4 = extern.
\<close>

record Word =
  w_word :: string
  w_address :: int
  w_type :: int

record Symbol =
  sym_name :: string
  sym_value :: int
  sym_type :: int

text \<open>An \<open>Order\<close>: \<open>order_word\<close> is the list of its words, a symbol name is \<open>None\<close>
  for \<open>NULL\<close>. \<open>new_order\<close> leaves \<open>number_of_words\<close> uninitialised: it is
  \<open>None\<close> until \<open>first_scan\<close> assigns it.\<close>

record Order =
  order_IC :: int
  opcode :: int
  operand1 :: int
  operand2 :: int
  number_of_words :: "int option"
  symbol_flag :: int
  symbol_name1 :: "string option"
  symbol_name2 :: "string option"
  order_word :: "Word list"

definition new_word :: Word where
  "new_word = \<lparr>w_word = [], w_address = 0, w_type = 0\<rparr>"

definition new_symbol :: "string \<Rightarrow> Symbol" where
  "new_symbol nm = \<lparr>sym_name = nm, sym_value = 0, sym_type = 0\<rparr>"

definition add_symbol :: "Symbol list \<Rightarrow> string \<Rightarrow> Symbol list" where
  "add_symbol symbols nm = symbols @ [new_symbol nm]"

fun search_symbol :: "Symbol list \<Rightarrow> string \<Rightarrow> Symbol option" where
  "search_symbol [] nm = None"
| "search_symbol (s # ss) nm = (if sym_name s = nm then Some s else search_symbol ss nm)"

text \<open>\<open>set_type(symbol_tail, t)\<close> and \<open>set_value(symbol_tail, v)\<close> after
  \<open>add_symbol\<close>: they change the last symbol of the list.\<close>

definition set_tail :: "Symbol list \<Rightarrow> int \<Rightarrow> int \<Rightarrow> Symbol list" where
  "set_tail symbols t v =
     (case rev symbols of
        [] \<Rightarrow> []
      | s # ss \<Rightarrow> rev ss @ [s\<lparr>sym_type := t, sym_value := v\<rparr>])"

text \<open>\<open>set_type(search_symbol(head, name), t)\<close>: the first symbol of that name.\<close>

fun set_type_of :: "Symbol list \<Rightarrow> string \<Rightarrow> int \<Rightarrow> Symbol list" where
  "set_type_of [] nm t = []"
| "set_type_of (s # ss) nm t =
     (if sym_name s = nm then s\<lparr>sym_type := t\<rparr> # ss else s # set_type_of ss nm t)"

definition update_data_symbols_value :: "Symbol list \<Rightarrow> int \<Rightarrow> Symbol list" where
  "update_data_symbols_value symbols ICF =
     map (\<lambda>s. if sym_type s = 1 then s\<lparr>sym_value := sym_value s + ICF\<rparr> else s) symbols"

definition update_data :: "Word list \<Rightarrow> int \<Rightarrow> Word list" where
  "update_data ws ic = map (\<lambda>w. w\<lparr>w_address := w_address w + ic\<rparr>) ws"

definition new_order :: "int \<Rightarrow> Order" where
  "new_order op =
     \<lparr>order_IC = 0, opcode = op, operand1 = 0, operand2 = 0, number_of_words = None,
      symbol_flag = 0, symbol_name1 = None, symbol_name2 = None, order_word = []\<rparr>"

text \<open>\<open>add_word_to_order\<close>: the first word gets the address \<open>order->IC\<close>, every other
  one the address after the word before it.\<close>

definition add_word_to_order :: "Order \<Rightarrow> Word \<Rightarrow> Order" where
  "add_word_to_order order w =
     (if order_word order = []
      then order\<lparr>order_word := [w\<lparr>w_address := order_IC order\<rparr>]\<rparr>
      else order\<lparr>order_word :=
             order_word order @ [w\<lparr>w_address := w_address (last (order_word order)) + 1\<rparr>]\<rparr>)"

subsection \<open>Encoders (decode.c)\<close>

text \<open>\<open>decode_number_in_8_bits\<close>: a negative number is taken as \<open>(1 << 8) + number\<close>,
  converted to \<open>unsigned int\<close>; then the bits 7 down to 0.\<close>

definition decode_number_in_8_bits :: "int \<Rightarrow> string" where
  "decode_number_in_8_bits number =
     (let val = (if number < 0 then word_of_int (push_bit 8 1 + number) else word_of_int number)
                :: 32 word
      in map (\<lambda>i. if drop_bit i val AND 1 \<noteq> 0 then CHR ''1'' else CHR ''0'')
           [7, 6, 5, 4, 3, 2, 1, 0 :: nat])"

definition decode_char :: "char \<Rightarrow> string" where
  "decode_char ch =
     (let val = (of_char ch :: 32 word)
      in map (\<lambda>i. if drop_bit i val AND 1 \<noteq> 0 then CHR ''1'' else CHR ''0'')
           [9, 8, 7, 6, 5, 4, 3, 2, 1, 0 :: nat])"

definition reg_in_str :: "int \<Rightarrow> string" where
  "reg_in_str num =
     map (\<lambda>i. if drop_bit i num AND 1 \<noteq> 0 then CHR ''1'' else CHR ''0'') [3, 2, 1, 0 :: nat]"

definition decode_target_register :: "int \<Rightarrow> string" where
  "decode_target_register number = ''0000'' @ reg_in_str number @ ''00''"

definition decode_source_register :: "int \<Rightarrow> string" where
  "decode_source_register number = reg_in_str number @ ''000000''"

definition decode_registers :: "int \<Rightarrow> int \<Rightarrow> string" where
  "decode_registers number1 number2 = reg_in_str number1 @ reg_in_str number2 @ ''00''"

definition decode_order_first_word :: "Order \<Rightarrow> Order" where
  "decode_order_first_word order =
     (let str = take 4 (drop 6 (decode_number (opcode order)))
                @ take 2 (drop 8 (decode_number (operand1 order)))
                @ take 2 (drop 8 (decode_number (operand2 order)))
                @ ''00''
      in add_word_to_order order \<lparr>w_word = str, w_address = 0, w_type = 1\<rparr>)"

section \<open>Orders (order.c) and operand encoding (decode.c)\<close>

text \<open>
  The ways a run ends before its time: \<open>exit(1)\<close>; a read or a loop that leaves the
  line buffer behind the terminator; a loop that does not return; a \<open>NULL\<close> pointer
  dereferenced; a write behind the end of a local array or of an allocated block. But
  for \<open>exit(1)\<close> and the loop that does not return, C says nothing about what the
  program does then, and the model says nothing either.
\<close>

datatype fatal = Exit1 | Off_buffer | No_return | Null_deref | Buffer_overrun

text \<open>
  \<open>is_direct\<close>: an immediate operand \<open>#number\<close>; 1 when a comma follows, 2 when the
  line ends, 0 otherwise. The number is copied into \<open>char num[MAX_NUM_LENGTH + 1]\<close>,
  five bytes, by a loop that runs while \<open>j <= MAX_NUM_LENGTH\<close>: after five characters
  the terminator is written to \<open>num[5]\<close>, behind the array.
\<close>

definition is_direct :: "cbuf \<Rightarrow> int \<Rightarrow> fatal + int" where
  "is_direct line i0 =
     (if char_at line i0 \<noteq> CHR ''#'' then Inr 0
      else
        (case copy_upto (\<lambda>c. c \<noteq> NL \<and> c \<noteq> CR \<and> c \<noteq> CHR '','' \<and> c \<noteq> SP) 5
                line (i0 + 1) [] of
           (i, num) \<Rightarrow>
             if length num = 5 then Inl Buffer_overrun
             else if \<not> is_number (local_buf num) 0 then Inr 0
             else if space_skip line i = - 1 then Inr 1
             else if space_skip line i = - 2 then Inr 2
             else Inr 0))"

definition ORDERS_TABLE :: "string list" where
  "ORDERS_TABLE =
     [''mov'', ''cmp'', ''add'', ''sub'', ''lea'', ''clr'', ''not'', ''inc'', ''dec'', ''jmp'',
      ''bne'', ''jsr'', ''red'', ''prn'', ''rts'', ''stop'']"

text \<open>\<open>opcode_in_decimal\<close>: the first entry of the table that matches the line on 3 or
  on 4 characters; -1 when none does.\<close>

fun opcode_search :: "cbuf \<Rightarrow> int \<Rightarrow> string list \<Rightarrow> int \<Rightarrow> int" where
  "opcode_search line index [] i = - 1"
| "opcode_search line index (nm # rest) i =
     (if strncmp0 line index nm 3 \<or> strncmp0 line index nm 4 then i
      else opcode_search line index rest (i + 1))"

definition opcode_in_decimal :: "cbuf \<Rightarrow> int \<Rightarrow> int" where
  "opcode_in_decimal line index = opcode_search line index ORDERS_TABLE 0"

definition addressing_method :: "cbuf \<Rightarrow> int \<Rightarrow> fatal + int" where
  "addressing_method line i =
     (case is_direct line i of
        Inl e \<Rightarrow> Inl e
      | Inr d \<Rightarrow>
          if d = 1 \<or> d = 2 then Inr 0
          else if is_register line i \<noteq> 0 then Inr 3
          else if is_mat_operand line i \<noteq> 0 then Inr 2
          else if is_symbol line i \<noteq> 0 then Inr 1
          else Inr (- 1))"

definition number_of_lines :: "int \<Rightarrow> int \<Rightarrow> int" where
  "number_of_lines op1 op2 =
     (let lines = (1 :: int);
          lines = (if op1 = 0 \<or> op1 = 1 then lines + 1
                   else if op1 = 2 then lines + 2
                   else if op1 = 3 then lines + 1
                   else lines)
      in if op1 = 3 \<and> op2 = 3 then lines
         else if op2 = 0 \<or> op2 = 1 \<or> op2 = 3 then lines + 1
         else if op2 = 2 then lines + 2
         else lines)"

definition number_of_operands :: "int \<Rightarrow> int" where
  "number_of_operands op =
     (if - 1 < op \<and> op < 5 then 2
      else if 4 < op \<and> op < 14 then 1
      else 0)"

text \<open>\<open>validate_operands\<close>: \<open>True\<close> when the source returns 1 (an illegal combination).\<close>

definition validate_operands :: "Order \<Rightarrow> bool" where
  "validate_operands order =
     (let opc = opcode order; op1 = operand1 order; op2 = operand2 order
      in if opc = 14 \<or> opc = 15 then \<not> (op1 = - 1 \<and> op2 = - 1)
         else if 0 \<le> opc \<and> opc \<le> 3 then
           (if op1 < 0 \<or> 3 < op1 then True
            else if op2 < 0 \<or> 3 < op2 then True
            else if opc = 0 \<or> opc = 2 \<or> opc = 3 then
              (if op2 = 0 then True else if op2 = 2 then True else False)
            else False)
         else if opc = 4 then
           (if op1 \<noteq> 1 \<and> op1 \<noteq> 2 then True
            else if op2 \<noteq> 1 \<and> op2 \<noteq> 2 \<and> op2 \<noteq> 3 then True
            else False)
         else if 4 < opc \<and> opc < 13 then
           (if op1 \<noteq> - 1 then True
            else if op2 \<noteq> 1 \<and> op2 \<noteq> 2 \<and> op2 \<noteq> 3 then True
            else False)
         else if opc = 13 then
           (if op1 \<noteq> - 1 then True
            else if op2 < 0 \<or> 3 < op2 then True
            else False)
         else True)"

text \<open>
  The two loops of \<open>decode_operand\<close> that collect the digits of a register index
  between brackets: \<open>copy_digits\<close> is the inner loop, \<open>extract_reg\<close> the outer one. The
  local arrays hold at most 9 characters.
\<close>

function copy_digits :: "cbuf \<Rightarrow> int \<Rightarrow> string \<Rightarrow> int \<times> string" where
  "copy_digits line i acc =
     (if lt_strlen i line \<and> isdigit (char_at line i) \<and> length acc < 9
      then copy_digits line (i + 1) (acc @ [char_at line i])
      else (i, acc))"
  by pat_completeness auto
termination
  by (relation "measure (\<lambda>(line, i, acc). nat (int (length (chars line)) - i))")
    (auto simp: lt_strlen_def strlen_def)

declare copy_digits.simps [simp del]

function extract_reg :: "cbuf \<Rightarrow> int \<Rightarrow> string \<Rightarrow> string" where
  "extract_reg line i acc =
     (if lt_strlen i line \<and> char_at line i \<noteq> CHR '']'' \<and> length acc < 9 then
        (if char_at line i = CHR ''r'' then
           (case copy_digits line (i + 1) acc of (i', acc') \<Rightarrow> extract_reg line i' acc')
         else extract_reg line (i + 1) acc)
      else acc)"
  by pat_completeness auto
termination
proof (relation "measure (\<lambda>(line, i, acc). nat (int (length (chars line)) - i))", goal_cases)
  case 1
  show ?case by simp
next
  case (2 line i acc x y)
  have mono: "j \<le> fst (copy_digits line j a)" for j a
  proof (induction line j a rule: copy_digits.induct)
    case (1 line i acc)
    then show ?case
      by (subst copy_digits.simps) auto
  qed
  have "i + 1 \<le> fst (copy_digits line (i + 1) acc)"
    by (rule mono)
  with 2 show ?case
    by (cases "copy_digits line (i + 1) acc") (auto simp: lt_strlen_def strlen_def)
next
  case (3 line i acc)
  then show ?case
    by (auto simp: lt_strlen_def strlen_def)
qed

declare extract_reg.simps [simp del]

text \<open>
  The part of \<open>decode_operand\<close> for a matrix operand: when \<open>is_mat_operand\<close> holds and
  the two bracket pairs are found behind the symbol (which ends at \<open>index2\<close>), the second
  word \<open>tmp2\<close> gets the two register indices (\<open>flag = 1\<close>); \<open>None\<close> stands for
  \<open>flag = 0\<close>.
\<close>

definition mat_registers :: "cbuf \<Rightarrow> int \<Rightarrow> int \<Rightarrow> string option" where
  "mat_registers line index index2 =
     (if is_mat_operand line index = 0 then None
      else
        (let reg_index = scan_lt (\<lambda>c. c \<noteq> CHR ''['') line index2
         in if char_at line reg_index \<noteq> CHR ''['' then None
            else
              (let reg1_start = reg_index + 1;
                   reg_index = scan_lt (\<lambda>c. c \<noteq> CHR '']'') line reg1_start
               in if char_at line reg_index \<noteq> CHR '']'' then None
                  else if char_at line (reg_index + 1) \<noteq> CHR ''['' then None
                  else
                    (let reg2_start = reg_index + 2;
                         reg_index = scan_lt (\<lambda>c. c \<noteq> CHR '']'') line reg2_start
                     in if char_at line reg_index \<noteq> CHR '']'' then None
                        else
                          (let reg1_str = extract_reg line reg1_start [];
                               reg2_str = extract_reg line reg2_start []
                           in Some (decode_registers (atoi (local_buf reg1_str) 0)
                                      (atoi (local_buf reg2_str) 0)))))))"

text \<open>
  \<open>decode_operand\<close> appends the word, or the two words, of the operand at \<open>index\<close> to the
  order, and records a symbol name. It ends the program with \<open>exit(1)\<close> on an index
  outside the line, on \<open>#\<close> without a number and on an operand that is no symbol. The
  symbol is copied into a block of \<open>MAX_SYMBOL_LENGTH = 30\<close> bytes with no test of its
  length, and the terminator is written behind it: a name of 30 characters or more
  writes behind the block.
\<close>

definition decode_operand :: "Order \<Rightarrow> cbuf \<Rightarrow> int \<Rightarrow> fatal + Order" where
  "decode_operand order line index =
     (if index < 0 \<or> strlen line \<le> index then Inl Exit1
      else if char_at line index = CHR ''#'' then
        (if is_number line (index + 1)
         then Inr (add_word_to_order order
                (new_word\<lparr>w_word :=
                   decode_number_in_8_bits (str_to_int line (index + 1)) @ ''00''\<rparr>))
         else Inl Exit1)
      else if is_register line index = 1 then
        Inr (add_word_to_order order
          (new_word\<lparr>w_word := decode_source_register (atoi line (index + 1))\<rparr>))
      else if is_register line index = 2 then
        Inr (add_word_to_order order
          (new_word\<lparr>w_word := decode_target_register (atoi line (index + 1))\<rparr>))
      else
        (let index2 = is_symbol line index
         in if index2 \<le> 0 then Inl Exit1
            else if 30 \<le> index2 - index then Inl Buffer_overrun
            else
              (let symbol_name = substr line index index2;
                   tmp2 = mat_registers line index index2;
                   order = order\<lparr>symbol_flag := 1\<rparr>;
                   order =
                     (if symbol_name1 order = None \<and> (operand1 order = 2 \<or> operand1 order = 1)
                      then order\<lparr>symbol_name1 := Some symbol_name\<rparr>
                      else order\<lparr>symbol_name2 := Some symbol_name\<rparr>);
                   order = add_word_to_order order (new_word\<lparr>w_word := ''0000000000''\<rparr>)
               in Inr (case tmp2 of
                         None \<Rightarrow> order
                       | Some w \<Rightarrow> add_word_to_order order (new_word\<lparr>w_word := w\<rparr>)))))"

text \<open>
  The word count as the specification words it: one word for the instruction, one for
  an immediate, direct or register operand, two for a matrix operand, none for an
  absent operand, and one less when both operands are registers.
\<close>

definition operand_words :: "int \<Rightarrow> int" where
  "operand_words mode =
     (if mode = 0 \<or> mode = 1 \<or> mode = 3 then 1 else if mode = 2 then 2 else 0)"

definition spec_word_count :: "int \<Rightarrow> int \<Rightarrow> int" where
  "spec_word_count src dst =
     1 + operand_words src + operand_words dst - (if src = 3 \<and> dst = 3 then 1 else 0)"

section \<open>Data directives (helpers.c, decode.c)\<close>

definition ge_strlen :: "int \<Rightarrow> cbuf \<Rightarrow> bool" where
  "ge_strlen i line = (i < 0 \<or> strlen line \<le> i)"

definition is_blank :: "char \<Rightarrow> bool" where
  "is_blank c = (c = SP \<or> c = TAB)"

definition sign_or_digit :: "char \<Rightarrow> bool" where
  "sign_or_digit c = (c = CHR ''-'' \<or> c = CHR ''+'' \<or> isdigit c)"

text \<open>
  \<open>contains_invalid_commas\<close>. Its first loop looks for a double and for a trailing
  comma (\<open>commas_pass1\<close>, with the flags \<open>last_char_comma\<close> and \<open>comma_found\<close>), its
  second loop for two numbers with no comma between them (\<open>commas_pass2\<close>).
\<close>

function commas_pass1 :: "cbuf \<Rightarrow> int \<Rightarrow> bool \<Rightarrow> bool \<Rightarrow> bool" where
  "commas_pass1 line i last_char_comma comma_found =
     (if char_at line i \<noteq> NL \<and> char_at line i \<noteq> NUL then
        (if char_at line i = CHR '','' then
           (if last_char_comma then True else commas_pass1 line (i + 1) True True)
         else if char_at line i \<noteq> SP \<and> char_at line i \<noteq> TAB then
           commas_pass1 line (i + 1) False comma_found
         else commas_pass1 line (i + 1) last_char_comma comma_found)
      else last_char_comma \<and> comma_found)"
  by pat_completeness auto
termination
  by (relation "measure (\<lambda>(line, i, l, f). nat (int (length (chars line)) - i))")
    (auto simp: char_at_def split: if_splits)

declare commas_pass1.simps [simp del]

function commas_pass2 :: "cbuf \<Rightarrow> int \<Rightarrow> bool" where
  "commas_pass2 line i =
     (if lt_strlen i line \<and> char_at line i \<noteq> NL \<and> char_at line i \<noteq> NUL then
        (let i1 = scan_lt is_blank line i
         in if ge_strlen i1 line \<or> char_at line i1 = NL \<or> char_at line i1 = NUL then False
            else if sign_or_digit (char_at line i1) then
              (let i2 = (if char_at line i1 = CHR ''-'' \<or> char_at line i1 = CHR ''+''
                         then i1 + 1 else i1);
                   i3 = scan_lt isdigit line i2;
                   i4 = scan_lt is_blank line i3
               in if lt_strlen i4 line \<and> char_at line i4 \<noteq> NL \<and> char_at line i4 \<noteq> NUL
                     \<and> char_at line i4 \<noteq> CHR '','' \<and> sign_or_digit (char_at line i4)
                  then True
                  else commas_pass2 line i4)
            else commas_pass2 line (i1 + 1))
      else False)"
  by pat_completeness auto
termination
proof (relation "measure (\<lambda>(line, i). nat (int (length (chars line)) - i))", goal_cases)
  case 1
  show ?case by simp
next
  case (2 line i i1 i2 i3 i4)
  have mono: "j \<le> scan_lt P line j" for P j
  proof (induction P line j rule: scan_lt.induct)
    case (1 P line i)
    then show ?case
      by (subst scan_lt.simps) auto
  qed
  have step: "lt_strlen j line \<Longrightarrow> isdigit (char_at line j) \<Longrightarrow> j + 1 \<le> scan_lt isdigit line j"
    for j
    using mono [of "j + 1" isdigit] by (subst scan_lt.simps) simp
  have a: "i \<le> i1"
    using 2 mono by simp
  have b: "lt_strlen i1 line"
    using 2 by (simp add: ge_strlen_def lt_strlen_def)
  have c: "i1 < i3"
  proof (cases "char_at line i1 = CHR ''-'' \<or> char_at line i1 = CHR ''+''")
    case True
    then have "i2 = i1 + 1" using 2 by simp
    then show ?thesis using mono [of i2 isdigit] 2 by simp
  next
    case False
    then have "i2 = i1" and "isdigit (char_at line i1)"
      using 2 by (simp_all add: sign_or_digit_def)
    then show ?thesis using step [of i1] b 2 by simp
  qed
  have d: "i3 \<le> i4"
    using 2 mono by simp
  from 2 have "i < int (length (chars line))"
    by (simp add: lt_strlen_def strlen_def)
  with a c d show ?case
    by simp
next
  case (3 line i i1)
  have mono: "j \<le> scan_lt P line j" for P j
  proof (induction P line j rule: scan_lt.induct)
    case (1 P line i)
    then show ?case
      by (subst scan_lt.simps) auto
  qed
  have "i \<le> i1"
    using 3 mono by simp
  moreover from 3 have "i < int (length (chars line))"
    by (simp add: lt_strlen_def strlen_def)
  ultimately show ?case
    by simp
qed

declare commas_pass2.simps [simp del]

definition contains_invalid_commas :: "cbuf \<Rightarrow> int \<Rightarrow> bool" where
  "contains_invalid_commas line index =
     (let i = skip_while is_blank line index
      in if char_at line i = CHR '','' then True
         else if commas_pass1 line i False False then True
         else commas_pass2 line (skip_while is_blank line index))"

text \<open>
  \<open>is_legal_data_or_matrix_initialization\<close>. The loop takes what \<open>space_skip\<close> returns
  as its next index, also when that is a sentinel, so the index can move backwards and
  the loop need not end: the result is \<open>None\<close> when it does not return. A token is
  copied into \<open>char tmp[MAX_NUM_LENGTH + 1]\<close>, five bytes, by a loop that runs while
  \<open>j <= MAX_NUM_LENGTH\<close>: after five characters the terminator is written to
  \<open>tmp[5]\<close>, behind the array, before the test for a number that is too long.
\<close>

partial_function (option) is_legal_data_or_matrix_initialization ::
  "cbuf \<Rightarrow> int \<Rightarrow> (fatal + bool) option"
  where
  "is_legal_data_or_matrix_initialization line i0 =
     (if char_at line i0 \<noteq> NUL \<and> char_at line i0 \<noteq> NL then
        (let i = space_skip line i0
         in if char_at line i = CHR '','' then Some (Inr False)
            else
              (case copy_upto (\<lambda>c. \<not> isspace c \<and> c \<noteq> CHR '','' \<and> c \<noteq> NL) 5 line i [] of
                 (i, tmp) \<Rightarrow>
                   if length tmp = 0 then Some (Inr False)
                   else if length tmp = 5 then Some (Inl Buffer_overrun)
                   else if 4 < length tmp then Some (Inr False)
                   else if \<not> is_number (local_buf tmp) 0 then Some (Inr False)
                   else
                     (let i = space_skip line i
                      in if char_at line i = CHR '','' then
                           (let i = space_skip line (i + 1)
                            in if char_at line i = NUL \<or> char_at line i = NL
                               then Some (Inr False)
                               else if char_at line i = CHR '','' then Some (Inr False)
                               else is_legal_data_or_matrix_initialization line i)
                         else if char_at line i \<noteq> NUL \<and> char_at line i \<noteq> NL
                         then Some (Inr False)
                         else Some (Inr True))))
      else Some (Inr True))"

declare is_legal_data_or_matrix_initialization.simps [code]

definition is_legal_string :: "cbuf \<Rightarrow> int \<Rightarrow> bool" where
  "is_legal_string line i0 =
     (if char_at line i0 \<noteq> CHR 0x22 then False
      else
        (let i = skip_while (\<lambda>c. c \<noteq> CHR 0x22) line (i0 + 1)
         in if char_at line i \<noteq> CHR 0x22 then False
            else
              (let i = space_skip line (i + 1)
               in if char_at line i \<noteq> NUL then False else True)))"

text \<open>\<open>is_legal_mat\<close>: the two dimensions in brackets, each copied into a local array
  of at most \<open>MAX_NUM_LENGTH = 4\<close> characters, then the values.\<close>

definition is_legal_mat :: "cbuf \<Rightarrow> int \<Rightarrow> (fatal + bool) option" where
  "is_legal_mat line i0 =
     (if char_at line i0 \<noteq> CHR ''['' then Some (Inr False)
      else
        (case copy_upto (\<lambda>c. c \<noteq> CHR '']'') 4 line (i0 + 1) [] of
           (i, num) \<Rightarrow>
             if char_at line i \<noteq> CHR '']'' then Some (Inr False)
             else if \<not> is_number (local_buf num) 0 then Some (Inr False)
             else if str_to_int (local_buf num) 0 \<le> 0 then Some (Inr False)
             else if char_at line (i + 1) \<noteq> CHR ''['' then Some (Inr False)
             else
               (case copy_upto (\<lambda>c. c \<noteq> CHR '']'') 4 line (i + 2) [] of
                  (i, num) \<Rightarrow>
                    if char_at line i \<noteq> CHR '']'' then Some (Inr False)
                    else if \<not> is_number (local_buf num) 0 then Some (Inr False)
                    else if str_to_int (local_buf num) 0 \<le> 0 then Some (Inr False)
                    else is_legal_data_or_matrix_initialization line (space_skip line (i + 1)))))"

text \<open>\<open>save_place\<close>: the product of the two dimensions. Its loops
  \<open>while (line[index] != '[') index++\<close> have no test for the terminator:
  \<open>find_bracket\<close> is \<open>None\<close> when the loop runs off the line.\<close>

function find_bracket :: "cbuf \<Rightarrow> int \<Rightarrow> int option" where
  "find_bracket line index =
     (if char_at line index = CHR ''['' then Some index
      else if strlen line \<le> index then None
      else find_bracket line (index + 1))"
  by pat_completeness auto
termination
  by (relation "measure (\<lambda>(line, index). nat (int (length (chars line)) - index))")
    (auto simp: strlen_def)

declare find_bracket.simps [simp del]

definition save_place :: "cbuf \<Rightarrow> int option" where
  "save_place line =
     (case find_bracket line 0 of
        None \<Rightarrow> None
      | Some index \<Rightarrow>
          (let index = space_skip line (index + 1);
               num1 = str_to_int line index
           in case find_bracket line index of
                None \<Rightarrow> None
              | Some index \<Rightarrow>
                  (let index = space_skip line (index + 1);
                       num2 = str_to_int line index
                   in if num1 < 0 \<or> num2 < 0 then Some (- 1) else Some (num1 * num2))))"

text \<open>\<open>add_word(D_word_head, D_word_tail)\<close> followed by the assignments to the new
  word: a data word with the given content at address \<open>DC\<close>.\<close>

definition add_word :: "Word list \<Rightarrow> string \<Rightarrow> int \<Rightarrow> Word list" where
  "add_word ws str dc = ws @ [\<lparr>w_word = str, w_address = dc, w_type = 0\<rparr>]"

text \<open>
  The loop of \<open>decode_data\<close> over the values of \<open>.data\<close>: one data word for each number,
  \<open>DC\<close> counted up. It also takes the result of \<open>space_skip\<close> as its index, and is
  \<open>None\<close> when it does not return. The loop over the values of \<open>.mat\<close> is the same
  loop without the test for the end of the line after \<open>space_skip\<close>, which the test for
  a digit or a sign that follows subsumes.
\<close>

partial_function (option) data_loop :: "cbuf \<Rightarrow> int \<Rightarrow> Word list \<Rightarrow> int \<Rightarrow> (Word list \<times> int) option"
  where
  "data_loop line index0 ws dc =
     (if char_at line index0 \<noteq> NL \<and> char_at line index0 \<noteq> NUL then
        (let index = space_skip line index0
         in if char_at line index = NL \<or> char_at line index = NUL then Some (ws, dc)
            else if \<not> isdigit (char_at line index) \<and> char_at line index \<noteq> CHR ''-''
                    \<and> char_at line index \<noteq> CHR ''+'' then Some (ws, dc)
            else
              (let ws = add_word ws (decode_number (str_to_int line index)) dc;
                   dc = dc + 1;
                   index = skip_while (\<lambda>c. c \<noteq> CHR '','' \<and> c \<noteq> NL) line index;
                   index = (if char_at line index = CHR '','' then index + 1 else index)
               in data_loop line index ws dc))
      else Some (ws, dc))"

declare data_loop.simps [code]

text \<open>The loop of \<open>decode_data\<close> over the characters of \<open>.string\<close>.\<close>

function string_loop :: "cbuf \<Rightarrow> int \<Rightarrow> Word list \<Rightarrow> int \<Rightarrow> Word list \<times> int" where
  "string_loop line index ws dc =
     (if char_at line index \<noteq> CHR 0x22 \<and> char_at line index \<noteq> NUL
      then string_loop line (index + 1) (add_word ws (decode_char (char_at line index)) dc) (dc + 1)
      else (ws, dc))"
  by pat_completeness auto
termination
  by (relation "measure (\<lambda>(line, index, ws, dc). nat (int (length (chars line)) - index))")
    (auto simp: char_at_def split: if_splits)

declare string_loop.simps [simp del]

text \<open>The two loops of the \<open>.mat\<close> branch that move over the dimensions:
  \<open>dims_end\<close> bounded by \<open>strlen\<close>, \<open>dims_skip\<close> by the terminator.\<close>

definition dims_end_step :: "cbuf \<Rightarrow> int \<Rightarrow> int" where
  "dims_end_step line dim_end0 =
     (let dim_end = scan_lt (\<lambda>c. c \<noteq> CHR ''['') line dim_end0;
          dim_end = (if char_at line dim_end = CHR ''['' then dim_end + 1 else dim_end);
          dim_end = scan_lt (\<lambda>c. c \<noteq> CHR '']'') line dim_end
      in if char_at line dim_end = CHR '']'' then dim_end + 1 else dim_end)"

definition dims_skip_step :: "cbuf \<Rightarrow> int \<Rightarrow> int" where
  "dims_skip_step line index0 =
     (let index = skip_while (\<lambda>c. c \<noteq> CHR '']'') line index0
      in if char_at line index = CHR '']'' then index + 1 else index)"

text \<open>
  \<open>decode_data\<close>: the result is the value returned (-1 for an error, else the new
  \<open>DC\<close>) with the data list. In the \<open>.mat\<close> branch a matrix without values moves \<open>DC\<close>
  by the product of the dimensions and adds no word; a matrix with values gets one
  word for each value given.
\<close>

definition decode_data :: "Word list \<Rightarrow> cbuf \<Rightarrow> int \<Rightarrow> int \<Rightarrow> int \<Rightarrow> fatal + (int \<times> Word list)"
  where
  "decode_data ws line index0 directive dc =
     (if directive = 1 then
        (let index = index0 + 5
         in if contains_invalid_commas line index then Inr (- 1, ws)
            else
              (case is_legal_data_or_matrix_initialization line index of
                 None \<Rightarrow> Inl No_return
               | Some (Inl e) \<Rightarrow> Inl e
               | Some (Inr False) \<Rightarrow> Inr (- 1, ws)
               | Some (Inr True) \<Rightarrow>
                   (case data_loop line index ws dc of
                      None \<Rightarrow> Inl No_return
                    | Some (ws', dc') \<Rightarrow> Inr (dc', ws'))))
      else if directive = 2 then
        (let index = space_skip line (index0 + 7)
         in if \<not> is_legal_string line index then Inr (- 1, ws)
            else
              (case string_loop line (index + 1) ws dc of
                 (ws', dc') \<Rightarrow> Inr (dc' + 1, add_word ws' ''0000000000'' dc')))
      else if directive = 3 then
        (let index = skip_while (\<lambda>c. c \<noteq> CHR ''['') line (index0 + 4);
             dim_end = dims_end_step line (dims_end_step line index);
             data_start = space_skip line dim_end
         in if lt_strlen data_start line \<and> char_at line data_start \<noteq> NL
               \<and> char_at line data_start \<noteq> NUL \<and> contains_invalid_commas line data_start
            then Inr (- 1, ws)
            else
              (case is_legal_mat line index of
                 None \<Rightarrow> Inl No_return
               | Some (Inl e) \<Rightarrow> Inl e
               | Some (Inr False) \<Rightarrow> Inr (- 1, ws)
               | Some (Inr True) \<Rightarrow>
                   (let index = space_skip line (dims_skip_step line (dims_skip_step line index))
                    in if char_at line index = NL \<or> char_at line index = NUL then
                         (case save_place line of
                            None \<Rightarrow> Inl Off_buffer
                          | Some cells \<Rightarrow> Inr (if cells \<noteq> - 1 then dc + cells else dc, ws))
                       else
                         (case data_loop line index ws dc of
                            None \<Rightarrow> Inl No_return
                          | Some (ws', dc') \<Rightarrow> Inr (dc', ws')))))
      else Inr (dc, ws))"

section \<open>Macro preprocessor (macros.c)\<close>

text \<open>
  \<open>fgets(line, n, file)\<close> hands the file over in pieces: a piece ends after a newline
  or when it holds \<open>n - 1\<close> characters. \<open>fgets_lines k cur rest\<close> is the list of the
  pieces of \<open>rest\<close> for \<open>k = n - 1\<close>, \<open>cur\<close> being the piece under construction.
\<close>

fun fgets_lines :: "nat \<Rightarrow> string \<Rightarrow> string \<Rightarrow> string list" where
  "fgets_lines k cur [] = (if cur = [] then [] else [cur])"
| "fgets_lines k cur (c # cs) =
     (let cur' = cur @ [c]
      in if c = NL \<or> length cur' = k then cur' # fgets_lines k [] cs
         else fgets_lines k cur' cs)"

text \<open>
  The array that \<open>fgets\<close> has filled is used as a C string: it ends before the first
  NUL character, should the file hold one.
\<close>

definition c_string :: "string \<Rightarrow> string" where
  "c_string piece = takeWhile (\<lambda>c. c \<noteq> NUL) piece"

text \<open>
  A macro: its name and the lines of its body (\<open>lines_head\<close>). The global list
  \<open>head\<close> holds the macros, the newest first (\<open>add_macro\<close> inserts at the front).
\<close>

record Macro =
  macro_name :: string
  lines_head :: "string list"

definition add_macro :: "string \<Rightarrow> Macro list \<Rightarrow> Macro list" where
  "add_macro nm head = \<lparr>macro_name = nm, lines_head = []\<rparr> # head"

fun find_macro :: "Macro list \<Rightarrow> string \<Rightarrow> Macro option" where
  "find_macro [] nm = None"
| "find_macro (m # ms) nm = (if macro_name m = nm then Some m else find_macro ms nm)"

definition is_macro_start :: "string \<Rightarrow> bool" where
  "is_macro_start line = (take 5 line = ''mcro '')"

definition is_macro_end :: "string \<Rightarrow> bool" where
  "is_macro_end line = (take 7 line = ''mcroend'')"

text \<open>
  \<open>extract_macro_name\<close>: skip leading spaces and tabs, then copy up to the first
  space, tab, newline, carriage return or the terminator (at most
  \<open>MAX_LINE_LENGTH - 1 = 80\<close> characters).
\<close>

definition extract_macro_name :: "string \<Rightarrow> string" where
  "extract_macro_name line =
     take 80 (takeWhile (\<lambda>c. c \<noteq> SP \<and> c \<noteq> TAB \<and> c \<noteq> NL \<and> c \<noteq> CR)
               (dropWhile (\<lambda>c. c = SP \<or> c = TAB) line))"

definition is_macro_call :: "Macro list \<Rightarrow> string \<Rightarrow> bool" where
  "is_macro_call head line = (find_macro head (extract_macro_name line) \<noteq> None)"

text \<open>\<open>add_line_to_macro(head, line)\<close> appends the line to the body of the first macro
  of the list, the one defined last.\<close>

fun add_line_to_macro :: "Macro list \<Rightarrow> string \<Rightarrow> Macro list" where
  "add_line_to_macro [] line = []"
| "add_line_to_macro (m # ms) line = m\<lparr>lines_head := lines_head m @ [line]\<rparr> # ms"

text \<open>\<open>expand_macro\<close> writes the body of the macro to the output file; the file is
  modelled by the text written to it so far.\<close>

definition expand_macro :: "Macro list \<Rightarrow> string \<Rightarrow> string \<Rightarrow> string" where
  "expand_macro head nm file =
     (case find_macro head nm of
        None \<Rightarrow> file
      | Some m \<Rightarrow> file @ concat (lines_head m))"

definition is_valid_macro_name :: "string \<Rightarrow> bool" where
  "is_valid_macro_name nm =
     (nm \<noteq> []
      \<and> nm \<notin> set [''mov'', ''cmp'', ''add'', ''sub'', ''lea'', ''clr'', ''not'', ''inc'', ''dec'',
                    ''jmp'', ''bne'', ''jsr'', ''red'', ''prn'', ''rts'', ''stop'']
      \<and> nm \<notin> set [''.data'', ''.string'', ''.mat'', ''.extern'', ''.entry''])"

text \<open>The state of the loop of \<open>preprocessor\<close>: the flag \<open>in_macro\<close>, the error
  flag, the macro list and the text written to the \<open>.am\<close> file.\<close>

record pre_state =
  in_macro :: bool
  pre_error_flag :: bool
  head :: "Macro list"
  fp1 :: string

definition pre_init :: pre_state where
  "pre_init = \<lparr>in_macro = False, pre_error_flag = False, head = [], fp1 = []\<rparr>"

text \<open>Is anything but spaces left on the line from this suffix on:
  \<open>while (line[i] == ' ') i++; if (line[i] != '\0' && line[i] != '\n' && line[i] != '\r')\<close>.\<close>

definition chars_after :: "string \<Rightarrow> bool" where
  "chars_after rest =
     (case dropWhile (\<lambda>c. c = SP) rest of
        [] \<Rightarrow> False
      | c # _ \<Rightarrow> c \<noteq> NL \<and> c \<noteq> CR)"

text \<open>One iteration of the loop of \<open>preprocessor\<close>, with the branches in the order of
  the source: the test for \<open>mcro \<close> comes first, whatever \<open>in_macro\<close> is.\<close>

definition preprocessor_line :: "pre_state \<Rightarrow> string \<Rightarrow> pre_state" where
  "preprocessor_line s line =
     (if is_macro_start line then
        (let rest = dropWhile (\<lambda>c. c = SP) (drop 5 line);
             nm = extract_macro_name rest;
             e1 = chars_after (drop (length nm) rest);
             e2 = (\<not> is_valid_macro_name nm)
         in s\<lparr>in_macro := True,
               pre_error_flag := (pre_error_flag s \<or> e1 \<or> e2),
               head := add_macro nm (head s)\<rparr>)
      else if in_macro s \<and> \<not> is_macro_end line then
        s\<lparr>head := add_line_to_macro (head s) line\<rparr>
      else if in_macro s \<and> is_macro_end line then
        s\<lparr>in_macro := False,
           pre_error_flag := (pre_error_flag s \<or> chars_after (drop 7 line))\<rparr>
      else if is_macro_call (head s) line then
        s\<lparr>fp1 := expand_macro (head s) (extract_macro_name line) (fp1 s)\<rparr>
      else
        s\<lparr>fp1 := fp1 s @ line\<rparr>)"

text \<open>\<open>preprocessor\<close>: the loop over the pieces \<open>fgets(line, MAX_LINE_LENGTH, file)\<close>
  delivers (\<open>MAX_LINE_LENGTH = 81\<close>, so a piece holds at most 80 characters, the newline
  included; a longer line of the file comes in several pieces, with no test of the
  length, and each piece is treated as a line). The result is the text of the \<open>.am\<close> file, or
  \<open>None\<close> (the source returns \<open>NULL\<close>) when an error was flagged.\<close>

definition preprocessor_loop :: "string \<Rightarrow> pre_state" where
  "preprocessor_loop file =
     foldl preprocessor_line pre_init (map c_string (fgets_lines 80 [] file))"

definition preprocessor :: "string \<Rightarrow> string option" where
  "preprocessor file =
     (let s = preprocessor_loop file
      in if pre_error_flag s then None else Some (fp1 s))"

section \<open>The first pass (main.c)\<close>

text \<open>The global variables of \<open>main.c\<close>. A list stands for a head pointer and its tail
  pointer.\<close>

record globals =
  symbol_head :: "Symbol list"
  order_head :: "Order list"
  D_word_head :: "Word list"
  external_head :: "Symbol list"
  entries_flag :: int
  IC :: int
  DC :: int

definition initial_globals :: globals where
  "initial_globals =
     \<lparr>symbol_head = [], order_head = [], D_word_head = [], external_head = [],
      entries_flag = 0, IC = 100, DC = 0\<rparr>"

text \<open>\<open>read_line\<close>: \<open>fgets(buffer, MAX_LINE_LENGTH + 1, fp)\<close> with
  \<open>MAX_LINE_LENGTH = 81\<close>; the value returned is 2 for a piece of 81 characters and 1
  for any other. (The buffer has 81 bytes, so that the terminator of a piece of 81
  characters lies one byte behind it; the model goes on to the source's own test of
  the length, as the program does.) \<open>out\<close> is what lies before the buffer.\<close>

definition read_lines :: "(int \<Rightarrow> char) \<Rightarrow> string \<Rightarrow> (int \<times> cbuf) list" where
  "read_lines out file =
     map (\<lambda>l. (if length l = 81 then 2 else 1, \<lparr>chars = l, outside = out\<rparr>))
       (map c_string (fgets_lines 81 [] file))"

text \<open>The order that \<open>add_order\<close> has put at the end of the list is \<open>order_tail\<close>; the
  model carries it in a variable and puts it at the end of the list where the iteration
  ends.\<close>

definition with_order :: "globals \<Rightarrow> Order \<Rightarrow> globals" where
  "with_order g order = g\<lparr>order_head := order_head g @ [order]\<rparr>"

text \<open>The end of an instruction line: \<open>validate_operands\<close>, then \<open>IC += L\<close>.\<close>

definition finish_order :: "globals \<Rightarrow> bool \<Rightarrow> Order \<Rightarrow> int \<Rightarrow> globals \<times> bool" where
  "finish_order g error_flag order L =
     (if validate_operands order then (with_order g order, True)
      else ((with_order g order)\<lparr>IC := IC g + L\<rparr>, error_flag))"

text \<open>The test for characters behind an operand that starts at \<open>index\<close>.\<close>

definition extra_characters :: "cbuf \<Rightarrow> int \<Rightarrow> bool" where
  "extra_characters line index =
     (let index2 = scan_lt (\<lambda>c. c \<noteq> SP \<and> c \<noteq> TAB \<and> c \<noteq> NL \<and> c \<noteq> CR) line index;
          index2 = scan_lt is_blank line index2
      in lt_strlen index2 line \<and> char_at line index2 \<noteq> NL \<and> char_at line index2 \<noteq> CR
         \<and> char_at line index2 \<noteq> NUL)"

text \<open>The branch of \<open>first_scan\<close> for \<open>.data\<close>, \<open>.string\<close> and \<open>.mat\<close>.\<close>

definition first_scan_data ::
  "globals \<Rightarrow> bool \<Rightarrow> cbuf \<Rightarrow> int \<Rightarrow> int \<Rightarrow> bool \<Rightarrow> string \<Rightarrow> fatal + (globals \<times> bool)" where
  "first_scan_data g error_flag line index directive symbol symbol1 =
     (if symbol \<and> search_symbol (symbol_head g) symbol1 \<noteq> None then Inr (g, True)
      else
        (let g = (if symbol
                  then g\<lparr>symbol_head := set_tail (add_symbol (symbol_head g) symbol1) 1 (DC g)\<rparr>
                  else g)
         in case decode_data (D_word_head g) line index directive (DC g) of
              Inl f \<Rightarrow> Inl f
            | Inr (result, ws) \<Rightarrow>
                if result = - 1 then Inr (g\<lparr>D_word_head := ws\<rparr>, True)
                else Inr (g\<lparr>D_word_head := ws, DC := result\<rparr>, error_flag)))"

text \<open>The branch for \<open>.entry\<close>: only the syntax is checked.\<close>

definition first_scan_entry :: "globals \<Rightarrow> bool \<Rightarrow> cbuf \<Rightarrow> int \<Rightarrow> globals \<times> bool" where
  "first_scan_entry g error_flag line index0 =
     (let index = space_skip line (index0 + 6);
          index2 = is_symbol line index
      in if index2 \<le> 0 then (g, True) else (g, error_flag))"

text \<open>The branch for \<open>.extern\<close>: the symbol is added with type 4, and the table is not
  searched for its name first.\<close>

definition first_scan_extern :: "globals \<Rightarrow> bool \<Rightarrow> cbuf \<Rightarrow> int \<Rightarrow> globals \<times> bool" where
  "first_scan_extern g error_flag line index0 =
     (let index = space_skip line (index0 + 7);
          index2 = is_symbol line index
      in if index2 \<le> 0 then (g, True)
         else
           (let symbol1 = substr line index index2
            in (g\<lparr>symbol_head := set_tail (add_symbol (symbol_head g) symbol1) 4 0\<rparr>,
                error_flag)))"

text \<open>
  An instruction without operands: \<open>stop\<close> wants \<open>space_skip\<close> to return -2 behind
  the mnemonic, \<open>rts\<close> wants it to return -1. \<open>opcode_in_decimal\<close> takes the three
  characters \<open>sto\<close> for \<open>stop\<close>, so that \<open>index + 4\<close> lies behind the terminator
  when the line ends after them.
\<close>

definition first_scan_no_operands ::
  "globals \<Rightarrow> bool \<Rightarrow> cbuf \<Rightarrow> int \<Rightarrow> Order \<Rightarrow> fatal + (globals \<times> bool)" where
  "first_scan_no_operands g error_flag line index order0 =
     (if opcode order0 = 15 \<and> strlen line < index + 4 then Inl Off_buffer
      else if opcode order0 = 15 \<and> space_skip line (index + 4) \<noteq> - 2
      then Inr (with_order g order0, True)
      else if opcode order0 \<noteq> 15 \<and> space_skip line (index + 3) \<noteq> - 1
      then Inr (with_order g order0, True)
      else
        (let order = decode_order_first_word order0;
             order = order\<lparr>operand1 := - 1, operand2 := - 1, number_of_words := Some 1\<rparr>
         in Inr (finish_order g error_flag order 1)))"

text \<open>An instruction with one operand, which starts at \<open>index\<close>.\<close>

definition first_scan_one_operand ::
  "globals \<Rightarrow> bool \<Rightarrow> cbuf \<Rightarrow> int \<Rightarrow> Order \<Rightarrow> fatal + (globals \<times> bool)" where
  "first_scan_one_operand g error_flag line index order0 =
     (case addressing_method line index of
        Inl e \<Rightarrow> Inl e
      | Inr m \<Rightarrow>
          (let order = order0\<lparr>operand2 := m\<rparr>;
               order = decode_order_first_word order;
               order = order\<lparr>operand1 := - 1\<rparr>
           in if extra_characters line index then Inr (with_order g order, True)
              else
                (let L = number_of_lines (operand1 order) (operand2 order);
                     order = order\<lparr>number_of_words := Some L, order_IC := IC g\<rparr>
                 in case decode_operand order line index of
                      Inl f \<Rightarrow> Inl f
                    | Inr order \<Rightarrow> Inr (finish_order g error_flag order L))))"

text \<open>An instruction with two operands, the first of which starts at \<open>index\<close>.\<close>

definition first_scan_two_operands ::
  "globals \<Rightarrow> bool \<Rightarrow> cbuf \<Rightarrow> int \<Rightarrow> Order \<Rightarrow> fatal + (globals \<times> bool)" where
  "first_scan_two_operands g error_flag line index order0 =
     (case addressing_method line index of
        Inl e \<Rightarrow> Inl e
      | Inr m1 \<Rightarrow>
          (let order = order0\<lparr>operand1 := m1\<rparr>;
               index2 = scan_lt (\<lambda>c. c \<noteq> CHR '','' \<and> c \<noteq> NL) line index
           in if ge_strlen index2 line \<or> char_at line index2 \<noteq> CHR '','' then
                Inr (with_order g order, True)
              else
                (let index2 = space_skip line (index2 + 1)
                 in case addressing_method line index2 of
                      Inl e \<Rightarrow> Inl e
                    | Inr m2 \<Rightarrow>
                        (let order = order\<lparr>operand2 := m2\<rparr>
                         in if extra_characters line index2 then Inr (with_order g order, True)
                            else
                              (let L = number_of_lines (operand1 order) (operand2 order);
                                   order = order\<lparr>number_of_words := Some L, order_IC := IC g\<rparr>;
                                   order = decode_order_first_word order
                               in if operand1 order = 3 \<and> operand2 order = 3 then
                                    Inr (finish_order g error_flag
                                      (add_word_to_order order
                                         (new_word\<lparr>w_word :=
                                            decode_registers (atoi line (index + 1))
                                              (atoi line (index2 + 1))\<rparr>)) L)
                                  else
                                    (case decode_operand order line index of
                                       Inl f \<Rightarrow> Inl f
                                     | Inr order \<Rightarrow>
                                         (case decode_operand order line index2 of
                                            Inl f \<Rightarrow> Inl f
                                          | Inr order \<Rightarrow>
                                              Inr (finish_order g error_flag order L))))))))"

text \<open>The branch of \<open>first_scan\<close> for an instruction.\<close>

definition first_scan_order ::
  "globals \<Rightarrow> bool \<Rightarrow> cbuf \<Rightarrow> int \<Rightarrow> bool \<Rightarrow> string \<Rightarrow> fatal + (globals \<times> bool)" where
  "first_scan_order g error_flag line index symbol symbol1 =
     (if symbol \<and> search_symbol (symbol_head g) symbol1 \<noteq> None then Inr (g, True)
      else
        (let g = (if symbol
                  then g\<lparr>symbol_head := set_tail (add_symbol (symbol_head g) symbol1) 2 (IC g)\<rparr>
                  else g);
             op = opcode_in_decimal line index
         in if op = - 1 then Inr (g, True)
            else
              (let num_of_ops = number_of_operands op;
                   order = (new_order op)\<lparr>order_IC := IC g\<rparr>
               in if num_of_ops = 0 then first_scan_no_operands g error_flag line index order
                  else if num_of_ops = 1 then
                    first_scan_one_operand g error_flag line (space_skip line (index + 3)) order
                  else
                    first_scan_two_operands g error_flag line (space_skip line (index + 3)) order)))"

text \<open>One iteration of the loop of \<open>first_scan\<close>, on the line that \<open>read_line\<close> has put
  into the buffer and the value it has returned.\<close>

definition first_scan_line :: "globals \<times> bool \<Rightarrow> int \<times> cbuf \<Rightarrow> fatal + (globals \<times> bool)" where
  "first_scan_line st rl =
     (case st of (g, error_flag0) \<Rightarrow>
      case rl of (num_of_chars, line) \<Rightarrow>
        (let error_flag = (error_flag0 \<or> num_of_chars = 2);
             index = skip_while (\<lambda>c. c = SP) line 0
         in if char_at line index = NL \<or> char_at line index = CR \<or> char_at line index = NUL
            then Inr (g, error_flag)
            else if char_at line index = CHR '';'' then Inr (g, error_flag)
            else
              (let index2 = is_symbol_definition line index;
                   symbol = (0 < index2);
                   symbol1 = substr line index index2;
                   index = (if symbol then space_skip line (index2 + 1) else index);
                   directive = is_directive line index
               in if 0 < directive \<and> directive < 4
                  then first_scan_data g error_flag line index directive symbol symbol1
                  else if directive = 5 then Inr (first_scan_entry g error_flag line index)
                  else if directive = 4 then Inr (first_scan_extern g error_flag line index)
                  else first_scan_order g error_flag line index symbol symbol1)))"

text \<open>A loop over the lines that stops at a fatal end.\<close>

fun scan_lines ::
  "('s \<Rightarrow> 'l \<Rightarrow> fatal + 's) \<Rightarrow> 's \<Rightarrow> 'l list \<Rightarrow> fatal + 's" where
  "scan_lines f st [] = Inr st"
| "scan_lines f st (l # ls) =
     (case f st l of Inl e \<Rightarrow> Inl e | Inr st' \<Rightarrow> scan_lines f st' ls)"

text \<open>\<open>first_scan\<close>: the loop, then \<open>update_data_symbols_value(symbol_head, IC)\<close>. The
  result is the new state of the globals and the error flag returned.\<close>

definition first_scan :: "(int \<Rightarrow> char) \<Rightarrow> globals \<Rightarrow> string \<Rightarrow> fatal + (globals \<times> bool)" where
  "first_scan out g file =
     (case scan_lines first_scan_line (g, False) (read_lines out file) of
        Inl e \<Rightarrow> Inl e
      | Inr (g', error_flag) \<Rightarrow>
          Inr (g'\<lparr>symbol_head := update_data_symbols_value (symbol_head g') (IC g')\<rparr>,
               error_flag))"

section \<open>The second pass (order.c, main.c)\<close>

text \<open>The operand word that \<open>update_symbol_operands\<close> writes: the eight bits of the
  symbol's value, then \<open>10\<close> for a symbol of the file and \<open>01\<close> for an external one
  (type 4).\<close>

definition patched_word :: "Symbol \<Rightarrow> string" where
  "patched_word symbol =
     decode_number_in_8_bits (sym_value symbol) @ (if sym_type symbol \<noteq> 4 then ''10'' else ''01'')"

text \<open>The entry of the external list for a use at \<open>address\<close>.\<close>

definition new_ext :: "string \<Rightarrow> int \<Rightarrow> Symbol" where
  "new_ext nm address = \<lparr>sym_name = nm, sym_value = address, sym_type = 4\<rparr>"

text \<open>The search for the placeholder of the second operand:
  \<open>curr_word2 = curr_order->word; while (curr_word2 != NULL && strcmp(curr_word2->word,
  "0000000000") != 0) curr_word2 = curr_word2->next\<close>. It starts at the first word of
  the order; the result is the position of the word found.\<close>

fun find_placeholder :: "Word list \<Rightarrow> nat option" where
  "find_placeholder [] = None"
| "find_placeholder (w # ws) =
     (if w_word w = ''0000000000'' then Some 0
      else (case find_placeholder ws of None \<Rightarrow> None | Some k \<Rightarrow> Some (Suc k)))"

text \<open>The part of the loop body for \<open>symbol_name1\<close>. The result is the order, the
  external list and whether the iteration goes on to \<open>symbol_name2\<close> (it does not after
  an undefined symbol). \<open>first_data_word = curr_order->word->next\<close> is the second word
  of the order.\<close>

definition update_first_operand ::
  "Symbol list \<Rightarrow> Order \<Rightarrow> Symbol list \<Rightarrow> fatal + (Order \<times> Symbol list \<times> bool)" where
  "update_first_operand symbols order ext =
     (case symbol_name1 order of
        None \<Rightarrow> Inr (order, ext, True)
      | Some nm \<Rightarrow>
          (case search_symbol symbols nm of
             None \<Rightarrow> Inr (order, ext, False)
           | Some symbol \<Rightarrow>
               if length (order_word order) < 2 then Inl Null_deref
               else
                 (let ws = order_word order;
                      order' = order\<lparr>order_word :=
                                 ws[1 := (ws ! 1)\<lparr>w_word := patched_word symbol\<rparr>]\<rparr>
                  in if sym_type symbol \<noteq> 4 then Inr (order', ext, True)
                     else Inr (order', ext @ [new_ext nm (order_IC order + 1)], True))))"

text \<open>The part of the loop body for \<open>symbol_name2\<close>; the flag is the error flag.\<close>

definition update_second_operand ::
  "Symbol list \<Rightarrow> Order \<Rightarrow> Symbol list \<Rightarrow> Order \<times> Symbol list \<times> bool" where
  "update_second_operand symbols order ext =
     (case symbol_name2 order of
        None \<Rightarrow> (order, ext, False)
      | Some nm \<Rightarrow>
          (case search_symbol symbols nm of
             None \<Rightarrow> (order, ext, True)
           | Some symbol2 \<Rightarrow>
               (case find_placeholder (order_word order) of
                  None \<Rightarrow> (order, ext, True)
                | Some k \<Rightarrow>
                    (let ws = order_word order;
                         order' = order\<lparr>order_word :=
                                    ws[k := (ws ! k)\<lparr>w_word := patched_word symbol2\<rparr>]\<rparr>
                     in if sym_type symbol2 \<noteq> 4 then (order', ext, False)
                        else (order', ext @ [new_ext nm (w_address (ws ! k))], False)))))"

text \<open>\<open>update_symbol_operands\<close>: the loop over the orders. The result is the orders,
  the external list and the error flag.\<close>

fun update_symbol_operands ::
  "Order list \<Rightarrow> Symbol list \<Rightarrow> Symbol list \<Rightarrow> fatal + (Order list \<times> Symbol list \<times> bool)" where
  "update_symbol_operands [] symbols ext = Inr ([], ext, False)"
| "update_symbol_operands (curr_order # rest) symbols ext =
     (if symbol_flag curr_order = 0 then
        (case update_symbol_operands rest symbols ext of
           Inl e \<Rightarrow> Inl e
         | Inr (os, ext', err) \<Rightarrow> Inr (curr_order # os, ext', err))
      else
        (case update_first_operand symbols curr_order ext of
           Inl e \<Rightarrow> Inl e
         | Inr (order1, ext1, go_on) \<Rightarrow>
             (let (order2, ext2, err2) =
                    (if go_on then update_second_operand symbols order1 ext1
                     else (order1, ext1, True))
              in case update_symbol_operands rest symbols ext2 of
                   Inl e \<Rightarrow> Inl e
                 | Inr (os, ext', err) \<Rightarrow> Inr (order2 # os, ext', err2 \<or> err))))"

text \<open>One iteration of the loop of \<open>second_scan\<close>. The symbol behind \<open>.entry\<close> is
  copied, with the character that follows it, into a block of \<open>MAX_SYMBOL_LENGTH = 30\<close>
  bytes with no test of its length: a name of 30 characters or more writes behind the
  block.\<close>

definition second_scan_line :: "globals \<times> bool \<Rightarrow> int \<times> cbuf \<Rightarrow> fatal + (globals \<times> bool)" where
  "second_scan_line st rl =
     (case st of (g, error_flag0) \<Rightarrow>
      case rl of (num_of_chars, line) \<Rightarrow>
        (let error_flag = (error_flag0 \<or> num_of_chars = 2);
             index = space_skip line 0
         in if char_at line index = NL \<or> char_at line index = CR \<or> char_at line index = NUL
            then Inr (g, error_flag)
            else if char_at line index = CHR '';'' then Inr (g, error_flag)
            else
              (let index2 = is_symbol_definition line index;
                   index = (if index2 \<noteq> 0 then index2 + 1 else index);
                   directive = is_directive line index
               in if 0 < directive \<and> directive < 5 then Inr (g, error_flag)
                  else if directive = 5 then
                    (let g = g\<lparr>entries_flag := 1\<rparr>;
                         index = space_skip line (index + 6);
                         index2 = is_symbol line index
                     in if index2 = 0 then Inr (g, True)
                        else if 30 \<le> index2 - index then Inl Buffer_overrun
                        else
                          (let symbol1 = substr line index index2
                           in if search_symbol (symbol_head g) symbol1 = None then Inr (g, True)
                              else Inr (g\<lparr>symbol_head := set_type_of (symbol_head g) symbol1 3\<rparr>,
                                        error_flag)))
                  else Inr (g, error_flag))))"

text \<open>\<open>second_scan\<close>: the loop, then \<open>update_symbol_operands\<close>.\<close>

definition second_scan :: "(int \<Rightarrow> char) \<Rightarrow> globals \<Rightarrow> string \<Rightarrow> fatal + (globals \<times> bool)" where
  "second_scan out g file =
     (case scan_lines second_scan_line (g, False) (read_lines out file) of
        Inl e \<Rightarrow> Inl e
      | Inr (g', error_flag) \<Rightarrow>
          (case update_symbol_operands (order_head g') (symbol_head g') (external_head g') of
             Inl e \<Rightarrow> Inl e
           | Inr (os, ext, update_result) \<Rightarrow>
               Inr (g'\<lparr>order_head := os, external_head := ext\<rparr>, error_flag \<or> update_result)))"

section \<open>Output files (output.c) and the driver (main.c)\<close>

definition base4_digit :: "int \<Rightarrow> char" where
  "base4_digit d =
     (if d = 0 then CHR ''a'' else if d = 1 then CHR ''b'' else if d = 2 then CHR ''c''
      else CHR ''d'')"

definition address_to_base4 :: "int \<Rightarrow> string" where
  "address_to_base4 address = map (\<lambda>i. base4_digit (drop_bit (6 - i * 2) address AND 3)) [0, 1, 2, 3]"

definition header_address_to_base4 :: "int \<Rightarrow> string" where
  "header_address_to_base4 address =
     map (\<lambda>i. base4_digit (drop_bit (4 - i * 2) address AND 3)) [0, 1, 2]"

definition header_code_to_base4 :: "int \<Rightarrow> string" where
  "header_code_to_base4 code = map (\<lambda>i. base4_digit (drop_bit (2 - i * 2) code AND 3)) [0, 1]"

definition bin_to_base4char :: "string \<Rightarrow> char" where
  "bin_to_base4char two_bits =
     (if take 2 two_bits = ''00'' then CHR ''a''
      else if take 2 two_bits = ''01'' then CHR ''b''
      else if take 2 two_bits = ''10'' then CHR ''c''
      else if take 2 two_bits = ''11'' then CHR ''d''
      else CHR ''?'')"

definition binary_to_special_base4 :: "string \<Rightarrow> string" where
  "binary_to_special_base4 w = map (\<lambda>i. bin_to_base4char (drop (i * 2) w)) [0, 1, 2, 3, 4]"

definition word_line :: "Word \<Rightarrow> string" where
  "word_line w = address_to_base4 (w_address w) @ [TAB] @ binary_to_special_base4 (w_word w) @ [NL]"

definition symbol_line :: "Symbol \<Rightarrow> string" where
  "symbol_line s = sym_name s @ [TAB] @ address_to_base4 (sym_value s) @ [NL]"

definition build_ext :: "Symbol list \<Rightarrow> string" where
  "build_ext ext = concat (map symbol_line ext)"

definition build_ent :: "Symbol list \<Rightarrow> string" where
  "build_ent symbols = concat (map symbol_line (filter (\<lambda>s. sym_type s = 3) symbols))"

definition build_ob :: "Word list \<Rightarrow> Order list \<Rightarrow> int \<Rightarrow> int \<Rightarrow> string" where
  "build_ob dwords orders ICF DCF =
     [TAB] @ header_address_to_base4 ICF @ [TAB] @ header_code_to_base4 DCF @ [NL]
     @ concat (map word_line (concat (map order_word orders)))
     @ concat (map word_line dwords)"

text \<open>\<open>end_system\<close> frees the lists and resets the two counters. It does not assign
  \<open>entries_flag\<close>.\<close>

definition end_system :: "globals \<Rightarrow> globals" where
  "end_system g =
     g\<lparr>symbol_head := [], external_head := [], order_head := [], D_word_head := [],
       IC := 100, DC := 0\<rparr>"

text \<open>The files written for one source: \<open>.ext\<close> and \<open>.ent\<close> when they are written,
  and \<open>.ob\<close>.\<close>

record artifacts =
  ext_file :: "string option"
  ent_file :: "string option"
  ob_file :: string

text \<open>
  The two passes as \<open>main\<close> runs them on the preprocessed text: \<open>first_scan\<close>,
  then, if it returned no error, \<open>second_scan\<close> on the same text, then, if that
  returned no error either, \<open>update_data(D_word_head, IC)\<close>. The flag of the result
  says whether a pass returned an error. \<open>out\<close> is what lies before the line buffers
  of the two passes.
\<close>

definition two_passes :: "(int \<Rightarrow> char) \<Rightarrow> globals \<Rightarrow> string \<Rightarrow> fatal + (globals \<times> bool)" where
  "two_passes out g am =
     (case first_scan out g am of
        Inl e \<Rightarrow> Inl e
      | Inr (g1, err1) \<Rightarrow>
          if err1 then Inr (g1, True)
          else
            (case second_scan out g1 am of
               Inl e \<Rightarrow> Inl e
             | Inr (g2, err2) \<Rightarrow>
                 if err2 then Inr (g2, True)
                 else Inr (g2\<lparr>D_word_head := update_data (D_word_head g2) (IC g2)\<rparr>, False)))"

text \<open>The files \<open>main\<close> writes after two passes without error: \<open>.ext\<close> when the
  external list is not empty, \<open>.ent\<close> when \<open>entries_flag\<close> is set, and \<open>.ob\<close>.\<close>

definition write_files :: "globals \<Rightarrow> artifacts" where
  "write_files g =
     \<lparr>ext_file = (if external_head g \<noteq> [] then Some (build_ext (external_head g)) else None),
      ent_file = (if entries_flag g \<noteq> 0 then Some (build_ent (symbol_head g)) else None),
      ob_file = build_ob (D_word_head g) (order_head g) (IC g - 100) (DC g)\<rparr>"

text \<open>
  The body of the loop of \<open>main\<close> for one source: \<open>None\<close> for a file that cannot be
  opened, else its text. A source that cannot be opened or that the preprocessor
  rejects is left without a call of \<open>end_system\<close>; after the passes \<open>end_system\<close> is
  called, with or without an error. The result is the state of the globals when the
  iteration ends, with the files written if the passes succeeded.
\<close>

definition assemble_file ::
  "(int \<Rightarrow> char) \<Rightarrow> globals \<Rightarrow> string option \<Rightarrow> fatal + (globals \<times> artifacts option)" where
  "assemble_file out g src =
     (case src of
        None \<Rightarrow> Inr (g, None)
      | Some file \<Rightarrow>
          (case preprocessor file of
             None \<Rightarrow> Inr (g, None)
           | Some am \<Rightarrow>
               (case two_passes out g am of
                  Inl e \<Rightarrow> Inl e
                | Inr (g', err) \<Rightarrow>
                    if err then Inr (end_system g', None)
                    else Inr (end_system g', Some (write_files g')))))"

text \<open>\<open>main\<close>: the loop over the sources named on the command line, from the initial
  values of the globals. The result is the globals at the end and what was written for
  each source.\<close>

fun main_loop ::
  "(int \<Rightarrow> char) \<Rightarrow> globals \<Rightarrow> string option list \<Rightarrow> fatal + (globals \<times> artifacts option list)"
  where
  "main_loop out g [] = Inr (g, [])"
| "main_loop out g (src # srcs) =
     (case assemble_file out g src of
        Inl e \<Rightarrow> Inl e
      | Inr (g', a) \<Rightarrow>
          (case main_loop out g' srcs of
             Inl e \<Rightarrow> Inl e
           | Inr (g'', as) \<Rightarrow> Inr (g'', a # as)))"

definition main :: "(int \<Rightarrow> char) \<Rightarrow> string option list \<Rightarrow> fatal + (globals \<times> artifacts option list)"
  where
  "main out srcs = main_loop out initial_globals srcs"

chapter \<open>Properties\<close>

section \<open>The 10-bit encoder\<close>

lemma decode_number_val_bit:
  "(drop_bit i ((word_of_int n :: 32 word) AND (push_bit 10 1 - 1)) AND 1 \<noteq> 0)
     = (i < 10 \<and> bit n i)"
proof -
  have m: "(push_bit 10 1 - 1 :: 32 word) = mask 10"
    by (simp add: mask_eq_exp_minus_1)
  have "(drop_bit i ((word_of_int n :: 32 word) AND mask 10) AND 1 \<noteq> 0)
          = bit ((word_of_int n :: 32 word) AND mask 10) i"
    by (simp add: bit_iff_and_drop_bit_eq_1 and_one_eq mod_2_eq_odd bit_iff_odd_drop_bit)
  also have "\<dots> = (i < 10 \<and> bit n i)"
    by (auto simp add: bit_simps)
  finally show ?thesis using m by simp
qed

lemma decode_number_bits:
  "decode_number n =
     map (\<lambda>i. if bit n i then CHR ''1'' else CHR ''0'') [9, 8, 7, 6, 5, 4, 3, 2, 1, 0 :: nat]"
  unfolding decode_number_def Let_def
  by (simp only: decode_number_val_bit list.map) simp

lemma bin_value_decode_number: "bin_value (decode_number n) = take_bit 10 n"
proof -
  have "take_bit 10 n = horner_sum of_bool 2 (map (bit n) [0..<10])"
    by (simp only: horner_sum_bit_eq_take_bit)
  also have "[0..<10] = [0, 1, 2, 3, 4, 5, 6, 7, 8, 9 :: nat]"
    by (simp add: upt_rec)
  finally show ?thesis
    by (simp add: decode_number_bits bin_value_def)
qed

text \<open>
  Claim C9. For every integer \<open>n\<close> from -512 to 511, the ten characters that
  \<open>decode_number\<close> produces, read as a 10-bit two's-complement number, give \<open>n\<close> back.
\<close>

theorem decode_number_roundtrip:
  "- 512 \<le> n \<Longrightarrow> n \<le> 511 \<Longrightarrow> twos_complement_10 (decode_number n) = n"
proof (cases "n < 0")
  case True
  assume lo: "- 512 \<le> n"
  have "(n + 1024) mod 1024 = n + 1024"
    using lo True by (intro mod_pos_pos_trivial) auto
  then have "n mod 1024 = n + 1024"
    by simp
  then show ?thesis
    unfolding twos_complement_10_def Let_def bin_value_decode_number take_bit_eq_mod
    using lo by simp
next
  case False
  assume hi: "n \<le> 511"
  have "n mod 1024 = n"
    using hi False by (intro mod_pos_pos_trivial) auto
  then show ?thesis
    unfolding twos_complement_10_def Let_def bin_value_decode_number take_bit_eq_mod
    using hi by simp
qed

theorem decode_number_roundtrip_witness:
  "- 512 \<le> (- 5 :: int) \<and> (- 5 :: int) \<le> 511
     \<and> decode_number (- 5) = ''1111111011''
     \<and> twos_complement_10 (decode_number (- 5)) = - 5"
  using decode_number_roundtrip [of "- 5"]
  by (simp add: decode_number_bits)

section \<open>The macro preprocessor\<close>



lemma is_macro_start_not_end: "is_macro_start line \<Longrightarrow> \<not> is_macro_end line"
proof
  assume s: "is_macro_start line" and e: "is_macro_end line"
  from s have "take 5 (take 7 line) = ''mcro ''"
    by (simp add: is_macro_start_def)
  with e show False
    by (simp add: is_macro_end_def)
qed

text \<open>
  Claim C6, as the code has it. While \<open>in_macro\<close> is set, a line that starts neither
  with \<open>mcro \<close> nor with \<open>mcroend\<close> is appended to the body of the macro defined last,
  and nothing else changes. A line that starts with \<open>mcro \<close> is not appended to any
  body: it opens a new macro with an empty body in front of the list, which the
  following lines are then captured into; the output is untouched and \<open>in_macro\<close>
  stays set.
\<close>

theorem capturing_line:
  "in_macro s \<Longrightarrow> head s = m # ms \<Longrightarrow> \<not> is_macro_end line \<Longrightarrow>
     (if is_macro_start line
      then in_macro (preprocessor_line s line)
           \<and> fp1 (preprocessor_line s line) = fp1 s
           \<and> tl (head (preprocessor_line s line)) = m # ms
           \<and> lines_head (hd (head (preprocessor_line s line))) = []
      else preprocessor_line s line
             = s\<lparr>head := m\<lparr>lines_head := lines_head m @ [line]\<rparr> # ms\<rparr>)"
  by (simp add: preprocessor_line_def Let_def add_macro_def)

theorem capturing_line_witness:
  "in_macro (preprocessor_line pre_init (''mcro A'' @ [NL]))
   \<and> head (preprocessor_line pre_init (''mcro A'' @ [NL]))
        = \<lparr>macro_name = ''A'', lines_head = []\<rparr> # []
   \<and> \<not> is_macro_end (''inc r1'' @ [NL])
   \<and> \<not> is_macro_start (''inc r1'' @ [NL])
   \<and> preprocessor_line (preprocessor_line pre_init (''mcro A'' @ [NL])) (''inc r1'' @ [NL])
        = \<lparr>in_macro = True, pre_error_flag = False,
            head = [\<lparr>macro_name = ''A'', lines_head = [''inc r1'' @ [NL]]\<rparr>],
            fp1 = []\<rparr>"
  using capturing_line [of "preprocessor_line pre_init (''mcro A'' @ [NL])"
      "\<lparr>macro_name = ''A'', lines_head = []\<rparr>" "[]" "''inc r1'' @ [NL]"]
  by (simp add: preprocessor_line_def pre_init_def is_macro_start_def is_macro_end_def
      extract_macro_name_def chars_after_def is_valid_macro_name_def add_macro_def Let_def)

text \<open>
  The claim as the specification states it fails: after \<open>mcro A\<close> the preprocessor is
  capturing into \<open>A\<close>; the line \<open>mcro B\<close> is not \<open>mcroend\<close>, yet it is not appended to
  the body of \<open>A\<close>, which stays empty, and a macro \<open>B\<close> is opened.
\<close>

theorem nested_mcro_not_captured:
  "in_macro (preprocessor_line pre_init (''mcro A'' @ [NL]))
   \<and> head (preprocessor_line pre_init (''mcro A'' @ [NL]))
        = [\<lparr>macro_name = ''A'', lines_head = []\<rparr>]
   \<and> \<not> is_macro_end (''mcro B'' @ [NL])
   \<and> head (preprocessor_line (preprocessor_line pre_init (''mcro A'' @ [NL]))
              (''mcro B'' @ [NL]))
        = [\<lparr>macro_name = ''B'', lines_head = []\<rparr>, \<lparr>macro_name = ''A'', lines_head = []\<rparr>]
   \<and> head (preprocessor_line (preprocessor_line pre_init (''mcro A'' @ [NL]))
              (''mcro B'' @ [NL]))
        \<noteq> [\<lparr>macro_name = ''A'', lines_head = [''mcro B'' @ [NL]]\<rparr>]"
  by (simp add: preprocessor_line_def pre_init_def is_macro_start_def is_macro_end_def
      extract_macro_name_def chars_after_def is_valid_macro_name_def add_macro_def Let_def)











section \<open>The two passes on concrete sources\<close>

text \<open>
  Claim C1, at a source the code fails on. The line \<open>X: mov #0, X\<close> has an immediate
  zero as its source and the symbol \<open>X\<close> (value 100) as its destination. The first pass
  emits the instruction word, the immediate word \<open>0000000000\<close> at address 101 and the
  placeholder \<open>0000000000\<close> at address 102. The second pass searches the placeholder
  from the first word of the order on, so it patches the immediate word at 101 and
  leaves the destination word at 102 as it was. No index before the buffer is read on
  this source: the result holds for every \<open>out\<close>.
\<close>

theorem immediate_zero_source_is_patched:
  "first_scan out initial_globals (''X: mov #0, X'' @ [NL])
     = Inr
        (\<lparr>symbol_head = [\<lparr>sym_name = ''X'', sym_value = 100, sym_type = 2\<rparr>],
          order_head =
            [\<lparr>order_IC = 100, opcode = 0, operand1 = 0, operand2 = 1, number_of_words = Some 3,
               symbol_flag = 1, symbol_name1 = None, symbol_name2 = Some ''X'',
               order_word =
                 [\<lparr>w_word = ''0000000100'', w_address = 100, w_type = 1\<rparr>,
                  \<lparr>w_word = ''0000000000'', w_address = 101, w_type = 0\<rparr>,
                  \<lparr>w_word = ''0000000000'', w_address = 102, w_type = 0\<rparr>]\<rparr>],
          D_word_head = [], external_head = [], entries_flag = 0, IC = 103, DC = 0\<rparr>,
         False)
   \<and> two_passes out initial_globals (''X: mov #0, X'' @ [NL])
     = Inr
        (\<lparr>symbol_head = [\<lparr>sym_name = ''X'', sym_value = 100, sym_type = 2\<rparr>],
          order_head =
            [\<lparr>order_IC = 100, opcode = 0, operand1 = 0, operand2 = 1, number_of_words = Some 3,
               symbol_flag = 1, symbol_name1 = None, symbol_name2 = Some ''X'',
               order_word =
                 [\<lparr>w_word = ''0000000100'', w_address = 100, w_type = 1\<rparr>,
                  \<lparr>w_word = ''0110010010'', w_address = 101, w_type = 0\<rparr>,
                  \<lparr>w_word = ''0000000000'', w_address = 102, w_type = 0\<rparr>]\<rparr>],
          D_word_head = [], external_head = [], entries_flag = 0, IC = 103, DC = 0\<rparr>,
         False)"
  by code_simp

text \<open>
  Claim C2, at the source of the specification's scenario S4. For
  \<open>M: .mat [2][2] 1,2\<close> the first pass appends the two words of the values given and
  no word for the two cells left: the data list has two words and \<open>DC\<close> is 2, not 4.
  (The validator reads the byte before the buffer once, at index -1; the source
  accepts the line when that byte is NUL.)
\<close>

theorem mat_with_values_is_not_padded:
  "first_scan (\<lambda>i. if i = - 1 then NUL else out i) initial_globals
       (''M: .mat [2][2] 1,2'' @ [NL])
     = Inr
        (\<lparr>symbol_head = [\<lparr>sym_name = ''M'', sym_value = 100, sym_type = 1\<rparr>],
          order_head = [],
          D_word_head =
            [\<lparr>w_word = ''0000000001'', w_address = 0, w_type = 0\<rparr>,
             \<lparr>w_word = ''0000000010'', w_address = 1, w_type = 0\<rparr>],
          external_head = [], entries_flag = 0, IC = 100, DC = 2\<rparr>,
         False)"
  by code_simp

text \<open>
  Claim C3, at two sources the code fails on. A second \<open>.extern E\<close> adds a second
  entry named \<open>E\<close> to the symbol table; and \<open>.extern X\<close> after the label \<open>X\<close> of an
  instruction adds a second entry named \<open>X\<close> and reports no error.
\<close>

theorem extern_adds_duplicate_names:
  "first_scan out initial_globals (''.extern E'' @ [NL] @ ''.extern E'' @ [NL])
     = Inr
        (\<lparr>symbol_head =
            [\<lparr>sym_name = ''E'', sym_value = 0, sym_type = 4\<rparr>,
             \<lparr>sym_name = ''E'', sym_value = 0, sym_type = 4\<rparr>],
          order_head = [], D_word_head = [], external_head = [], entries_flag = 0,
          IC = 100, DC = 0\<rparr>,
         False)
   \<and> map_sum id (\<lambda>(g, error_flag). (symbol_head g, error_flag))
       (first_scan out initial_globals (''X: stop'' @ [NL] @ ''.extern X'' @ [NL]))
     = Inr
        ([\<lparr>sym_name = ''X'', sym_value = 100, sym_type = 2\<rparr>,
          \<lparr>sym_name = ''X'', sym_value = 0, sym_type = 4\<rparr>],
         False)"
  by code_simp

text \<open>
  Claim C8, at the source the claim names. The line \<open>rts\<close> followed by a newline ends
  after the mnemonic, and the first pass reports an error for it: the error flag is
  set, no word is emitted and \<open>IC\<close> stays at 100. The line \<open>rts,\<close> is the one it
  accepts, with one word. (\<open>stop\<close> followed by a newline is accepted.)
\<close>

theorem rts_alone_is_rejected:
  "first_scan out initial_globals (''rts'' @ [NL])
     = Inr
        (\<lparr>symbol_head = [],
          order_head =
            [\<lparr>order_IC = 100, opcode = 14, operand1 = 0, operand2 = 0, number_of_words = None,
               symbol_flag = 0, symbol_name1 = None, symbol_name2 = None, order_word = []\<rparr>],
          D_word_head = [], external_head = [], entries_flag = 0, IC = 100, DC = 0\<rparr>,
         True)
   \<and> first_scan out initial_globals (''rts,'' @ [NL])
     = Inr
        (\<lparr>symbol_head = [],
          order_head =
            [\<lparr>order_IC = 100, opcode = 14, operand1 = - 1, operand2 = - 1, number_of_words = Some 1,
               symbol_flag = 0, symbol_name1 = None, symbol_name2 = None,
               order_word = [\<lparr>w_word = ''1110000000'', w_address = 100, w_type = 1\<rparr>]\<rparr>],
          D_word_head = [], external_head = [], entries_flag = 0, IC = 101, DC = 0\<rparr>,
         False)
   \<and> first_scan out initial_globals (''stop'' @ [NL])
     = Inr
        (\<lparr>symbol_head = [],
          order_head =
            [\<lparr>order_IC = 100, opcode = 15, operand1 = - 1, operand2 = - 1, number_of_words = Some 1,
               symbol_flag = 0, symbol_name1 = None, symbol_name2 = None,
               order_word = [\<lparr>w_word = ''1111000000'', w_address = 100, w_type = 1\<rparr>]\<rparr>],
          D_word_head = [], external_head = [], entries_flag = 0, IC = 101, DC = 0\<rparr>,
         False)"
  by code_simp

text \<open>
  Claim C4, as the code has it. For the three lines \<open>MAIN: mov X, r3\<close>, \<open>stop\<close>,
  \<open>X: .data 7\<close> the instruction takes the addresses 100 to 102 and \<open>stop\<close> the address
  103, so that \<open>IC\<close> ends at 104: \<open>MAIN\<close> is 100 (code), \<open>X\<close> is 104 after the shift,
  the first word \<open>0000011100\<close> is at 100, the placeholder at 101 is patched to
  \<open>0110100010\<close> (104 in eight bits, then \<open>10\<close>), the register word is \<open>0000001100\<close>,
  and the data word \<open>0000000111\<close> is at address 104. The validator of \<open>.data\<close> reads
  the byte before the buffer at index -2 and accepts the line when it is NUL; \<open>out\<close>
  is free for every other index.
\<close>

theorem scenario_S2_addresses:
  "preprocessor (''MAIN: mov X, r3'' @ [NL] @ ''stop'' @ [NL] @ ''X: .data 7'' @ [NL])
     = Some (''MAIN: mov X, r3'' @ [NL] @ ''stop'' @ [NL] @ ''X: .data 7'' @ [NL])
   \<and> two_passes (\<lambda>i. if i = - 2 then NUL else out i) initial_globals
       (''MAIN: mov X, r3'' @ [NL] @ ''stop'' @ [NL] @ ''X: .data 7'' @ [NL])
     = Inr
        (\<lparr>symbol_head =
            [\<lparr>sym_name = ''MAIN'', sym_value = 100, sym_type = 2\<rparr>,
             \<lparr>sym_name = ''X'', sym_value = 104, sym_type = 1\<rparr>],
          order_head =
            [\<lparr>order_IC = 100, opcode = 0, operand1 = 1, operand2 = 3, number_of_words = Some 3,
               symbol_flag = 1, symbol_name1 = Some ''X'', symbol_name2 = None,
               order_word =
                 [\<lparr>w_word = ''0000011100'', w_address = 100, w_type = 1\<rparr>,
                  \<lparr>w_word = ''0110100010'', w_address = 101, w_type = 0\<rparr>,
                  \<lparr>w_word = ''0000001100'', w_address = 102, w_type = 0\<rparr>]\<rparr>,
             \<lparr>order_IC = 103, opcode = 15, operand1 = - 1, operand2 = - 1, number_of_words = Some 1,
               symbol_flag = 0, symbol_name1 = None, symbol_name2 = None,
               order_word = [\<lparr>w_word = ''1111000000'', w_address = 103, w_type = 1\<rparr>]\<rparr>],
          D_word_head = [\<lparr>w_word = ''0000000111'', w_address = 104, w_type = 0\<rparr>],
          external_head = [], entries_flag = 0, IC = 104, DC = 1\<rparr>,
         False)"
  by code_simp

text \<open>
  The claim as the specification states it fails on the code: after the first pass
  \<open>X\<close> has the value 104 and not 103 (the order of \<open>stop\<close> has the address 103),
  so that the word patched in is \<open>0110100010\<close> and not \<open>0110011110\<close>.
\<close>

theorem scenario_S2_X_is_not_103:
  "first_scan zero_before initial_globals
       (''MAIN: mov X, r3'' @ [NL] @ ''stop'' @ [NL] @ ''X: .data 7'' @ [NL])
     = Inr
        (\<lparr>symbol_head =
            [\<lparr>sym_name = ''MAIN'', sym_value = 100, sym_type = 2\<rparr>,
             \<lparr>sym_name = ''X'', sym_value = 104, sym_type = 1\<rparr>],
          order_head =
            [\<lparr>order_IC = 100, opcode = 0, operand1 = 1, operand2 = 3,
               number_of_words = Some 3, symbol_flag = 1, symbol_name1 = Some ''X'',
               symbol_name2 = None,
               order_word =
                 [\<lparr>w_word = ''0000011100'', w_address = 100, w_type = 1\<rparr>,
                  \<lparr>w_word = ''0000000000'', w_address = 101, w_type = 0\<rparr>,
                  \<lparr>w_word = ''0000001100'', w_address = 102, w_type = 0\<rparr>]\<rparr>,
             \<lparr>order_IC = 103, opcode = 15, operand1 = - 1, operand2 = - 1,
               number_of_words = Some 1, symbol_flag = 0, symbol_name1 = None,
               symbol_name2 = None,
               order_word = [\<lparr>w_word = ''1111000000'', w_address = 103, w_type = 1\<rparr>]\<rparr>],
          D_word_head = [\<lparr>w_word = ''0000000111'', w_address = 0, w_type = 0\<rparr>],
          external_head = [], entries_flag = 0, IC = 104, DC = 1\<rparr>,
         False)
   \<and> sym_value \<lparr>sym_name = ''X'', sym_value = 104, sym_type = 1\<rparr> \<noteq> 103
   \<and> decode_number_in_8_bits 104 @ ''10'' = ''0110100010''
   \<and> decode_number_in_8_bits 104 @ ''10'' \<noteq> ''0110011110''"
  by code_simp

text \<open>
  Claim C7, at a source the code fails on. \<open>end_system\<close> empties the four lists and
  sets \<open>IC\<close> to 100 and \<open>DC\<close> to 0, and leaves \<open>entries_flag\<close> as it is. After a
  source with an \<open>.entry\<close> line the flag is still 1 when the next source starts, and
  that source, which has no \<open>.entry\<close> line, gets an \<open>.ent\<close> file (an empty one).
\<close>

theorem end_system_keeps_entries_flag:
  "end_system g
     = \<lparr>symbol_head = [], order_head = [], D_word_head = [], external_head = [],
        entries_flag = entries_flag g, IC = 100, DC = 0\<rparr>
   \<and> map_sum id (\<lambda>(g', files). (g', map (map_option ent_file) files))
       (main out [Some (''X: stop'' @ [NL] @ ''.entry X'' @ [NL]), Some (''stop'' @ [NL])])
     = Inr
        (\<lparr>symbol_head = [], order_head = [], D_word_head = [], external_head = [],
          entries_flag = 1, IC = 100, DC = 0\<rparr>,
         [Some (Some (''X'' @ [TAB] @ ''bcba'' @ [NL])), Some (Some [])])"
proof
  show "end_system g
     = \<lparr>symbol_head = [], order_head = [], D_word_head = [], external_head = [],
        entries_flag = entries_flag g, IC = 100, DC = 0\<rparr>"
    by (simp add: end_system_def)
  show "map_sum id (\<lambda>(g', files). (g', map (map_option ent_file) files))
       (main out [Some (''X: stop'' @ [NL] @ ''.entry X'' @ [NL]), Some (''stop'' @ [NL])])
     = Inr
        (\<lparr>symbol_head = [], order_head = [], D_word_head = [], external_head = [],
          entries_flag = 1, IC = 100, DC = 0\<rparr>,
         [Some (Some (''X'' @ [TAB] @ ''bcba'' @ [NL])), Some (Some [])])"
    by code_simp
qed

section \<open>The size of an instruction\<close>

lemma number_of_lines_spec: "number_of_lines a b = spec_word_count a b"
  by (auto simp: number_of_lines_def spec_word_count_def operand_words_def Let_def)

lemma char_at_lt: "0 \<le> i \<Longrightarrow> char_at line i \<noteq> NUL \<Longrightarrow> lt_strlen i line"
  by (auto simp: char_at_def lt_strlen_def strlen_def split: if_splits)

lemma skip_while_ge: "i \<le> skip_while P line i"
proof (induction P line i rule: skip_while.induct)
  case (1 P line i)
  then show ?case by (subst skip_while.simps) auto
qed

lemma skip_while_stop: "\<not> P (char_at line i) \<Longrightarrow> skip_while P line i = i"
  by (subst skip_while.simps) simp

lemma skip_while_step:
  "char_at line i \<noteq> NUL \<Longrightarrow> P (char_at line i) \<Longrightarrow> skip_while P line i = skip_while P line (i + 1)"
  by (subst skip_while.simps) simp

lemma scan_lt_stop: "\<not> P (char_at line i) \<Longrightarrow> scan_lt P line i = i"
  by (subst scan_lt.simps) simp

lemma scan_lt_step:
  "lt_strlen i line \<Longrightarrow> P (char_at line i) \<Longrightarrow> scan_lt P line i = scan_lt P line (i + 1)"
  by (subst scan_lt.simps) simp

lemma is_register_3:
  assumes "is_register line j = 3"
  shows "0 \<le> j \<and> char_at line j = CHR ''r'' \<and> char_at line (j + 1) \<in> set ''01234567''
         \<and> j + 2 < strlen line \<and> char_at line (j + 2) = CHR '']''"
  using assms
  by (auto simp: is_register_def Let_def split: if_splits)

lemma is_register_range: "is_register line j \<in> {0, 1, 2, 3}"
  by (auto simp: is_register_def Let_def)

lemma is_register_3_not_symbol:
  assumes "is_register line j = 3"
  shows "is_symbol line j = 0"
proof -
  from is_register_3 [OF assms] have j: "0 \<le> j" and r: "char_at line j = CHR ''r''"
    and d: "char_at line (j + 1) \<in> set ''01234567''"
    and b: "char_at line (j + 2) = CHR '']''" by auto
  have s1: "skip_while isalnum line j = skip_while isalnum line (j + 1)"
    using r by (intro skip_while_step) (auto simp: isalnum_def isalpha_def)
  have s2: "skip_while isalnum line (j + 1) = skip_while isalnum line (j + 1 + 1)"
    using d by (intro skip_while_step) (auto simp: isalnum_def isdigit_def)
  have s3: "skip_while isalnum line (j + 2) = j + 2"
    using b by (intro skip_while_stop) (auto simp: isalnum_def isdigit_def isalpha_def)
  have "skip_while isalnum line j = j + 2"
    using s1 s2 s3 by (simp add: add.assoc)
  then show ?thesis
    using b by (simp add: is_symbol_def Let_def)
qed

lemma is_symbol_ge: "is_symbol line i \<noteq> 0 \<Longrightarrow> i \<le> is_symbol line i"
  using skip_while_ge [of i isalnum line]
  by (auto simp: is_symbol_def Let_def split: if_splits)

lemma mat_registers_Some:
  assumes idx: "0 \<le> index" and m: "is_mat_operand line index \<noteq> 0"
  shows "mat_registers line index (is_symbol line index) \<noteq> None"
proof -
  define i where "i = is_symbol line index"
  from m have i0: "i \<noteq> 0" and b1: "char_at line i = CHR ''[''"
    and r1: "is_register line (i + 1) = 3" and b2: "char_at line (i + 4) = CHR ''[''"
    and r2: "is_register line (i + 5) = 3"
    unfolding is_mat_operand_def Let_def i_def by (auto split: if_splits)
  have ige: "0 \<le> i"
    using is_symbol_ge [of line index] i0 idx unfolding i_def by simp
  from is_register_3 [OF r1] have c1: "char_at line (i + 1) = CHR ''r''"
    and d1: "char_at line (i + 2) \<in> set ''01234567''" and e1: "char_at line (i + 3) = CHR '']''"
    by (auto simp: add.assoc)
  from is_register_3 [OF r2] have c2: "char_at line (i + 5) = CHR ''r''"
    and d2: "char_at line (i + 6) \<in> set ''01234567''" and e2: "char_at line (i + 7) = CHR '']''"
    and len: "i + 7 < strlen line"
    by (auto simp: add.assoc)
  have lt: "lt_strlen (i + k) line" if "0 \<le> k" "k \<le> 7" for k
    using that ige len by (simp add: lt_strlen_def)
  have p0: "scan_lt (\<lambda>c. c \<noteq> CHR ''['') line i = i"
    using b1 by (intro scan_lt_stop) simp
  have p1: "scan_lt (\<lambda>c. c \<noteq> CHR '']'') line (i + 1) = i + 3"
  proof -
    have "scan_lt (\<lambda>c. c \<noteq> CHR '']'') line (i + 1) = scan_lt (\<lambda>c. c \<noteq> CHR '']'') line (i + 1 + 1)"
      using c1 lt [of 1] by (intro scan_lt_step) auto
    also have "\<dots> = scan_lt (\<lambda>c. c \<noteq> CHR '']'') line (i + 2 + 1)"
      using d1 lt [of 2] scan_lt_step [of "i + 2" line "\<lambda>c. c \<noteq> CHR '']''"] by (auto simp: add.assoc)
    also have "\<dots> = i + 3"
      using e1 scan_lt_stop [of "\<lambda>c. c \<noteq> CHR '']''" line "i + 3"] by (simp add: add.assoc)
    finally show ?thesis .
  qed
  have p2: "scan_lt (\<lambda>c. c \<noteq> CHR '']'') line (i + 5) = i + 7"
  proof -
    have "scan_lt (\<lambda>c. c \<noteq> CHR '']'') line (i + 5) = scan_lt (\<lambda>c. c \<noteq> CHR '']'') line (i + 5 + 1)"
      using c2 lt [of 5] by (intro scan_lt_step) auto
    also have "\<dots> = scan_lt (\<lambda>c. c \<noteq> CHR '']'') line (i + 6 + 1)"
      using d2 lt [of 6] scan_lt_step [of "i + 6" line "\<lambda>c. c \<noteq> CHR '']''"] by (auto simp: add.assoc)
    also have "\<dots> = i + 7"
      using e2 scan_lt_stop [of "\<lambda>c. c \<noteq> CHR '']''" line "i + 7"] by (simp add: add.assoc)
    finally show ?thesis .
  qed
  show ?thesis
    using m p0 p1 p2 b1 b2 e1 e2
    unfolding mat_registers_def Let_def i_def [symmetric]
    by (simp add: add.assoc)
qed


lemma add_word_to_order_fields [simp]:
  "length (order_word (add_word_to_order ord w)) = Suc (length (order_word ord))"
  "operand1 (add_word_to_order ord w) = operand1 ord"
  "operand2 (add_word_to_order ord w) = operand2 ord"
  "opcode (add_word_to_order ord w) = opcode ord"
  "number_of_words (add_word_to_order ord w) = number_of_words ord"
  "order_IC (add_word_to_order ord w) = order_IC ord"
  by (simp_all add: add_word_to_order_def)

lemma decode_order_first_word_fields [simp]:
  "length (order_word (decode_order_first_word ord)) = Suc (length (order_word ord))"
  "operand1 (decode_order_first_word ord) = operand1 ord"
  "operand2 (decode_order_first_word ord) = operand2 ord"
  "opcode (decode_order_first_word ord) = opcode ord"
  "number_of_words (decode_order_first_word ord) = number_of_words ord"
  "order_IC (decode_order_first_word ord) = order_IC ord"
  by (simp_all add: decode_order_first_word_def Let_def)

lemma is_direct_not_hash: "char_at line i \<noteq> CHR ''#'' \<Longrightarrow> is_direct line i = Inr 0"
  by (simp add: is_direct_def)

lemma is_symbol_alpha: "is_symbol line i \<noteq> 0 \<Longrightarrow> isalpha (char_at line i)"
  by (auto simp: is_symbol_def split: if_splits)

lemma is_mat_operand_symbol: "is_mat_operand line i \<noteq> 0 \<Longrightarrow> is_symbol line i \<noteq> 0"
  by (auto simp: is_mat_operand_def Let_def split: if_splits)

lemma isalpha_not_hash: "isalpha c \<Longrightarrow> c \<noteq> CHR ''#''"
  by (auto simp: isalpha_def)

lemma addressing_method_2_iff:
  "addressing_method line i = Inr 2
     \<longleftrightarrow> ((\<exists>d. is_direct line i = Inr d \<and> d \<noteq> 1 \<and> d \<noteq> 2) \<and> is_register line i = 0
          \<and> is_mat_operand line i \<noteq> 0)"
  by (auto simp: addressing_method_def split: sum.splits)

lemma mat_registers_iff:
  assumes "0 \<le> index" and "char_at line index \<noteq> CHR ''#''"
    and "is_register line index \<noteq> 1" and "is_register line index \<noteq> 2"
  shows "mat_registers line index (is_symbol line index) \<noteq> None
           \<longleftrightarrow> addressing_method line index = Inr 2"
proof
  assume "mat_registers line index (is_symbol line index) \<noteq> None"
  then have m: "is_mat_operand line index \<noteq> 0"
    by (auto simp: mat_registers_def split: if_splits)
  then have "is_symbol line index \<noteq> 0"
    by (rule is_mat_operand_symbol)
  then have "is_register line index \<noteq> 3"
    using is_register_3_not_symbol [of line index] by auto
  then have "is_register line index = 0"
    using assms is_register_range [of line index] by auto
  then show "addressing_method line index = Inr 2"
    using m assms is_direct_not_hash [of line index] by (simp add: addressing_method_2_iff)
next
  assume "addressing_method line index = Inr 2"
  then have "is_mat_operand line index \<noteq> 0"
    by (simp add: addressing_method_2_iff)
  then show "mat_registers line index (is_symbol line index) \<noteq> None"
    using assms mat_registers_Some by simp
qed

lemma hash_not_2: "char_at line index = CHR ''#'' \<Longrightarrow> addressing_method line index \<noteq> Inr 2"
  using is_symbol_alpha [of line index] is_mat_operand_symbol [of line index]
    isalpha_not_hash [of "char_at line index"]
  by (auto simp: addressing_method_2_iff)

lemma decode_operand_words:
  assumes "decode_operand ord line index = Inr ord'"
  shows "length (order_word ord')
           = length (order_word ord) + (if addressing_method line index = Inr 2 then 2 else 1)
         \<and> operand1 ord' = operand1 ord \<and> operand2 ord' = operand2 ord
         \<and> opcode ord' = opcode ord \<and> number_of_words ord' = number_of_words ord
         \<and> order_IC ord' = order_IC ord"
proof -
  from assms have idx: "0 \<le> index"
    by (auto simp: decode_operand_def split: if_splits)
  consider (imm) "char_at line index = CHR ''#''"
    | (reg) "char_at line index \<noteq> CHR ''#''" "is_register line index = 1 \<or> is_register line index = 2"
    | (sym) "char_at line index \<noteq> CHR ''#''" "is_register line index \<noteq> 1" "is_register line index \<noteq> 2"
    by blast
  then show ?thesis
  proof cases
    case imm
    then show ?thesis
      using assms hash_not_2 [of line index]
      by (auto simp: decode_operand_def split: if_splits)
  next
    case reg
    then have "addressing_method line index \<noteq> Inr 2"
      by (auto simp: addressing_method_2_iff)
    then show ?thesis
      using assms reg idx
      by (auto simp: decode_operand_def split: if_splits)
  next
    case sym
    have iff: "mat_registers line index (is_symbol line index) \<noteq> None
                 \<longleftrightarrow> addressing_method line index = Inr 2"
      using idx sym by (intro mat_registers_iff) auto
    show ?thesis
    proof (cases "mat_registers line index (is_symbol line index)")
      case None
      then have "addressing_method line index \<noteq> Inr 2" using iff by simp
      then show ?thesis
        using assms sym idx None
        by (auto simp: decode_operand_def Let_def split: if_splits)
    next
      case (Some w)
      then have "addressing_method line index = Inr 2" using iff by simp
      then show ?thesis
        using assms sym idx Some
        by (auto simp: decode_operand_def Let_def split: if_splits)
    qed
  qed
qed


lemma finish_order_ok:
  "finish_order g False ord L = (g', False) \<Longrightarrow>
     g' = (with_order g ord)\<lparr>IC := IC g + L\<rparr> \<and> \<not> validate_operands ord"
  by (auto simp: finish_order_def split: if_splits)

lemma with_order_IC [simp]:
  "order_head ((with_order g ord)\<lparr>IC := n\<rparr>) = order_head g @ [ord]"
  "IC ((with_order g ord)\<lparr>IC := n\<rparr>) = n"
  by (simp_all add: with_order_def)

lemma no_operands_ok:
  assumes "first_scan_no_operands g False line index ord0 = Inr (g', False)"
    and "order_word ord0 = []"
  shows "\<exists>ord. g' = (with_order g ord)
                      \<lparr>IC := IC g + number_of_lines (operand1 ord) (operand2 ord)\<rparr>
           \<and> number_of_words ord = Some (number_of_lines (operand1 ord) (operand2 ord))
           \<and> int (length (order_word ord)) = number_of_lines (operand1 ord) (operand2 ord)"
proof -
  define ord where
    "ord = (decode_order_first_word ord0)
             \<lparr>operand1 := - 1, operand2 := - 1, number_of_words := Some 1\<rparr>"
  from assms(1) have "finish_order g False ord 1 = (g', False)"
    by (auto simp: first_scan_no_operands_def Let_def ord_def split: if_splits)
  then have "g' = (with_order g ord)\<lparr>IC := IC g + 1\<rparr>"
    using finish_order_ok by blast
  moreover have "number_of_words ord = Some 1" "operand1 ord = - 1" "operand2 ord = - 1"
    "length (order_word ord) = 1"
    using assms(2) by (simp_all add: ord_def)
  ultimately show ?thesis
    by (intro exI [of _ ord]) (simp add: number_of_lines_def)
qed

lemma one_operand_ok:
  assumes r: "first_scan_one_operand g False line index ord0 = Inr (g', False)"
    and w: "order_word ord0 = []" and opc: "4 < opcode ord0" "opcode ord0 < 14"
  shows "\<exists>ord. g' = (with_order g ord)
                      \<lparr>IC := IC g + number_of_lines (operand1 ord) (operand2 ord)\<rparr>
           \<and> number_of_words ord = Some (number_of_lines (operand1 ord) (operand2 ord))
           \<and> int (length (order_word ord)) = number_of_lines (operand1 ord) (operand2 ord)"
proof -
  from r obtain m where m: "addressing_method line index = Inr m"
    by (auto simp: first_scan_one_operand_def split: sum.splits)
  define L where "L = number_of_lines (- 1) m"
  define ord1 where
    "ord1 = ((decode_order_first_word (ord0\<lparr>operand2 := m\<rparr>))\<lparr>operand1 := - 1\<rparr>)
              \<lparr>number_of_words := Some L, order_IC := IC g\<rparr>"
  from r m obtain ord where d: "decode_operand ord1 line index = Inr ord"
    and f: "finish_order g False ord L = (g', False)"
    by (auto simp: first_scan_one_operand_def Let_def L_def ord1_def
        split: if_splits sum.splits)
  from decode_operand_words [OF d]
  have len: "length (order_word ord) = length (order_word ord1) + (if m = 2 then 2 else 1)"
    and o1: "operand1 ord = - 1" and o2: "operand2 ord = m" and oc: "opcode ord = opcode ord0"
    and nw: "number_of_words ord = Some L"
    by (simp_all add: ord1_def m)
  from finish_order_ok [OF f] have g': "g' = (with_order g ord)\<lparr>IC := IC g + L\<rparr>"
    and v: "\<not> validate_operands ord" by auto
  from v o1 o2 oc opc have mr: "m = 0 \<or> m = 1 \<or> m = 2 \<or> m = 3"
    by (auto simp: validate_operands_def Let_def split: if_splits)
  have l1: "length (order_word ord1) = 1"
    using w by (simp add: ord1_def)
  have "int (length (order_word ord)) = L"
    using len l1 mr by (auto simp: L_def number_of_lines_def)
  then show ?thesis
    using g' nw o1 o2 by (intro exI [of _ ord]) (simp add: L_def)
qed

lemma two_operands_ok:
  assumes r: "first_scan_two_operands g False line index ord0 = Inr (g', False)"
    and w: "order_word ord0 = []" and opc: "- 1 < opcode ord0" "opcode ord0 < 5"
  shows "\<exists>ord. g' = (with_order g ord)
                      \<lparr>IC := IC g + number_of_lines (operand1 ord) (operand2 ord)\<rparr>
           \<and> number_of_words ord = Some (number_of_lines (operand1 ord) (operand2 ord))
           \<and> int (length (order_word ord)) = number_of_lines (operand1 ord) (operand2 ord)"
proof -
  define i2 where
    "i2 = space_skip line (scan_lt (\<lambda>c. c \<noteq> CHR '','' \<and> c \<noteq> NL) line index + 1)"
  from r obtain m1 where m1: "addressing_method line index = Inr m1"
    by (auto simp: first_scan_two_operands_def split: sum.splits)
  from r m1 obtain m2 where m2: "addressing_method line i2 = Inr m2"
    by (auto simp: first_scan_two_operands_def Let_def i2_def split: if_splits sum.splits)
  define L where "L = number_of_lines m1 m2"
  define ord1 where
    "ord1 = decode_order_first_word
              (ord0\<lparr>operand1 := m1, operand2 := m2, number_of_words := Some L,
                   order_IC := IC g\<rparr>)"
  have l1: "length (order_word ord1) = 1" and f1: "operand1 ord1 = m1" "operand2 ord1 = m2"
    "number_of_words ord1 = Some L" "opcode ord1 = opcode ord0"
    using w by (simp_all add: ord1_def)
  show ?thesis
  proof (cases "m1 = 3 \<and> m2 = 3")
    case True
    define ord where
      "ord = add_word_to_order ord1
               (new_word\<lparr>w_word := decode_registers (atoi line (index + 1)) (atoi line (i2 + 1))\<rparr>)"
    from r m1 m2 True have f: "finish_order g False ord L = (g', False)"
      by (auto simp: first_scan_two_operands_def Let_def i2_def [symmetric] L_def ord1_def
          ord_def split: if_splits)
    from finish_order_ok [OF f] have g': "g' = (with_order g ord)\<lparr>IC := IC g + L\<rparr>"
      by auto
    have "int (length (order_word ord)) = L"
      using True l1 by (simp add: ord_def L_def number_of_lines_def)
    then show ?thesis
      using g' f1 by (intro exI [of _ ord]) (simp add: ord_def L_def)
  next
    case False
    with r m1 m2 obtain orda ord where da: "decode_operand ord1 line index = Inr orda"
      and db: "decode_operand orda line i2 = Inr ord"
      and f: "finish_order g False ord L = (g', False)"
      by (auto simp: first_scan_two_operands_def Let_def i2_def [symmetric] L_def ord1_def
          split: if_splits sum.splits)
    from decode_operand_words [OF da] decode_operand_words [OF db]
    have len: "length (order_word ord)
                 = length (order_word ord1) + (if m1 = 2 then 2 else 1) + (if m2 = 2 then 2 else 1)"
      and o1: "operand1 ord = m1" and o2: "operand2 ord = m2" and oc: "opcode ord = opcode ord0"
      and nw: "number_of_words ord = Some L"
      using f1 by (simp_all add: m1 m2)
    from finish_order_ok [OF f] have g': "g' = (with_order g ord)\<lparr>IC := IC g + L\<rparr>"
      and v: "\<not> validate_operands ord" by auto
    from v o1 o2 oc opc have mr: "m1 = 0 \<or> m1 = 1 \<or> m1 = 2 \<or> m1 = 3"
      "m2 = 0 \<or> m2 = 1 \<or> m2 = 2 \<or> m2 = 3"
      by (auto simp: validate_operands_def Let_def split: if_splits)
    have "int (length (order_word ord)) = L"
      using len l1 mr False by (auto simp: L_def number_of_lines_def)
    then show ?thesis
      using g' nw o1 o2 by (intro exI [of _ ord]) (simp add: L_def)
  qed
qed

lemma number_of_operands_cases:
  "number_of_operands op = 0 \<or> (number_of_operands op = 1 \<and> 4 < op \<and> op < 14)
     \<or> (number_of_operands op = 2 \<and> - 1 < op \<and> op < 5)"
  by (auto simp: number_of_operands_def)

text \<open>
  When the first pass accepts an instruction line (no error is flagged and the run does
  not end, so that the opcode is known and \<open>validate_operands\<close> accepts the addressing
  modes), it has added one order, and for that order the count computed by
  \<open>number_of_lines\<close> and stored in \<open>number_of_words\<close> is the number of words emitted;
  \<open>IC\<close> has moved by it. The count is the specification's: one word, one more for an
  immediate, direct or register operand, two more for a matrix operand, and one less
  when both operands are registers, which then makes exactly two words.
\<close>

lemma accepted_instruction_word_count:
  assumes "first_scan_order g False line index symbol symbol1 = Inr (g', False)"
  shows "\<exists>ord. order_head g' = order_head g @ [ord]
           \<and> number_of_words ord = Some (number_of_lines (operand1 ord) (operand2 ord))
           \<and> int (length (order_word ord)) = number_of_lines (operand1 ord) (operand2 ord)
           \<and> IC g' = IC g + number_of_lines (operand1 ord) (operand2 ord)
           \<and> number_of_lines (operand1 ord) (operand2 ord)
               = spec_word_count (operand1 ord) (operand2 ord)
           \<and> (operand1 ord = 3 \<and> operand2 ord = 3 \<longrightarrow> length (order_word ord) = 2)"
proof -
  define g1 where
    "g1 = (if symbol
           then g\<lparr>symbol_head := set_tail (add_symbol (symbol_head g) symbol1) 2 (IC g)\<rparr>
           else g)"
  define op where "op = opcode_in_decimal line index"
  define ord0 where "ord0 = (new_order op)\<lparr>order_IC := IC g1\<rparr>"
  have g1: "order_head g1 = order_head g" "IC g1 = IC g"
    by (simp_all add: g1_def)
  have w0: "order_word ord0 = []" and oc: "opcode ord0 = op"
    by (simp_all add: ord0_def new_order_def)
  from assms have br:
    "(if number_of_operands op = 0
      then first_scan_no_operands g1 False line index ord0
      else if number_of_operands op = 1
      then first_scan_one_operand g1 False line (space_skip line (index + 3)) ord0
      else first_scan_two_operands g1 False line (space_skip line (index + 3)) ord0)
     = Inr (g', False)"
    by (auto simp: first_scan_order_def Let_def g1_def op_def ord0_def split: if_splits)
  have "\<exists>ord. g' = (with_order g1 ord)
                      \<lparr>IC := IC g1 + number_of_lines (operand1 ord) (operand2 ord)\<rparr>
           \<and> number_of_words ord = Some (number_of_lines (operand1 ord) (operand2 ord))
           \<and> int (length (order_word ord)) = number_of_lines (operand1 ord) (operand2 ord)"
    using number_of_operands_cases [of op]
  proof (elim disjE conjE)
    assume "number_of_operands op = 0"
    with br have "first_scan_no_operands g1 False line index ord0 = Inr (g', False)"
      by simp
    then show ?thesis
      using w0 by (rule no_operands_ok)
  next
    assume n: "number_of_operands op = 1" and "4 < op" "op < 14"
    with br have "first_scan_one_operand g1 False line (space_skip line (index + 3)) ord0
                    = Inr (g', False)"
      by simp
    then show ?thesis
      using w0 \<open>4 < op\<close> \<open>op < 14\<close> oc by (intro one_operand_ok) auto
  next
    assume n: "number_of_operands op = 2" and "- 1 < op" "op < 5"
    with br have "first_scan_two_operands g1 False line (space_skip line (index + 3)) ord0
                    = Inr (g', False)"
      by simp
    then show ?thesis
      using w0 \<open>- 1 < op\<close> \<open>op < 5\<close> oc by (intro two_operands_ok) auto
  qed
  then obtain ord where
    a: "g' = (with_order g1 ord)\<lparr>IC := IC g1 + number_of_lines (operand1 ord) (operand2 ord)\<rparr>"
    and b: "number_of_words ord = Some (number_of_lines (operand1 ord) (operand2 ord))"
    and c: "int (length (order_word ord)) = number_of_lines (operand1 ord) (operand2 ord)"
    by blast
  have d: "operand1 ord = 3 \<and> operand2 ord = 3 \<longrightarrow> length (order_word ord) = 2"
    using c by (auto simp: number_of_lines_def)
  show ?thesis
    using a b c d g1 by (intro exI [of _ ord]) (simp add: number_of_lines_spec)
qed

text \<open>Lines that are accepted, with the modes found and the number of words emitted:
  no operand, one operand of each kind, and two operands with a matrix, a symbol, an
  immediate and registers.\<close>

lemma accepted_instruction_examples:
  "map (\<lambda>src. map_sum id
          (\<lambda>(g, error_flag).
             (map (\<lambda>ord. (operand1 ord, operand2 ord, number_of_words ord,
                            length (order_word ord))) (order_head g),
              IC g, error_flag))
          (first_scan out initial_globals (src @ [NL])))
     [''stop'', ''inc r1'', ''jmp L'', ''clr M[r1][r2]'', ''prn #-5'',
      ''lea M[r1][r2], r3'', ''cmp #1, M[r1][r2]'', ''mov X, r3'', ''mov r1, r2'']
   = [Inr ([(- 1, - 1, Some 1, 1)], 101, False),
      Inr ([(- 1, 3, Some 2, 2)], 102, False),
      Inr ([(- 1, 1, Some 2, 2)], 102, False),
      Inr ([(- 1, 2, Some 3, 3)], 103, False),
      Inr ([(- 1, 0, Some 2, 2)], 102, False),
      Inr ([(2, 3, Some 4, 4)], 104, False),
      Inr ([(0, 2, Some 4, 4)], 104, False),
      Inr ([(1, 3, Some 3, 3)], 103, False),
      Inr ([(3, 3, Some 2, 2)], 102, False)]"
  by code_simp

text \<open>
  Claim C5, at two sources the code fails on. \<open>rts\<close> is a valid instruction without
  operands, and \<open>number_of_lines\<close> counts one word for it: on the line \<open>rts\<close> followed
  by a newline the first pass reports an error, emits no word and leaves \<open>IC\<close> at 100
  (the test behind the mnemonic compares with -1, which \<open>space_skip\<close> returns for a
  comma; the end of the line is -2). \<open>mov r1, r2\<close> has a register as its source and as
  its destination: when it is the last line of the file and no newline follows it,
  \<open>is_register\<close> answers 0 for \<open>r2\<close> (the index behind the digit is not less than
  \<open>strlen\<close>, the test for the terminator as a delimiter comes after that), so that the
  operand is taken as a symbol named \<open>r2\<close>, of mode 1, and the line is accepted
  with three words. The same line followed by a newline has the modes 3 and 3 and the
  two words.
\<close>

theorem register_pair_and_rts_word_count:
  "number_of_lines (- 1) (- 1) = 1
   \<and> first_scan out initial_globals (''rts'' @ [NL])
     = Inr
        (\<lparr>symbol_head = [],
          order_head =
            [\<lparr>order_IC = 100, opcode = 14, operand1 = 0, operand2 = 0, number_of_words = None,
               symbol_flag = 0, symbol_name1 = None, symbol_name2 = None, order_word = []\<rparr>],
          D_word_head = [], external_head = [], entries_flag = 0, IC = 100, DC = 0\<rparr>,
         True)
   \<and> number_of_lines 3 3 = 2
   \<and> first_scan out initial_globals ''mov r1, r2''
     = Inr
        (\<lparr>symbol_head = [],
          order_head =
            [\<lparr>order_IC = 100, opcode = 0, operand1 = 3, operand2 = 1, number_of_words = Some 3,
               symbol_flag = 1, symbol_name1 = None, symbol_name2 = Some ''r2'',
               order_word =
                 [\<lparr>w_word = ''0000110100'', w_address = 100, w_type = 1\<rparr>,
                  \<lparr>w_word = ''0001000000'', w_address = 101, w_type = 0\<rparr>,
                  \<lparr>w_word = ''0000000000'', w_address = 102, w_type = 0\<rparr>]\<rparr>],
          D_word_head = [], external_head = [], entries_flag = 0, IC = 103, DC = 0\<rparr>,
         False)
   \<and> first_scan out initial_globals (''mov r1, r2'' @ [NL])
     = Inr
        (\<lparr>symbol_head = [],
          order_head =
            [\<lparr>order_IC = 100, opcode = 0, operand1 = 3, operand2 = 3, number_of_words = Some 2,
               symbol_flag = 0, symbol_name1 = None, symbol_name2 = None,
               order_word =
                 [\<lparr>w_word = ''0000111100'', w_address = 100, w_type = 1\<rparr>,
                  \<lparr>w_word = ''0001001000'', w_address = 101, w_type = 0\<rparr>]\<rparr>],
          D_word_head = [], external_head = [], entries_flag = 0, IC = 102, DC = 0\<rparr>,
         False)"
  by code_simp
end
